theory Spec2Isabelle
  imports Main
begin

section \<open>JavaScript values and the operators the adapter uses\<close>

text \<open>
  The argument bag of a tool call and the body of a REST response are JSON values; reading
  a missing property yields \<open>undefined\<close>. Numbers are modelled as integers (identifiers,
  page numbers, page sizes); fractions, \<open>NaN\<close> and integers beyond the range that
  JavaScript prints in plain decimal notation are outside the model. An object is the list
  of its own properties, the first binding of a key being the one that is read.
\<close>

datatype jsval =
    JUndefined
  | JNull
  | JBool bool
  | JNum int
  | JStr string
  | JArr "jsval list"
  | JObj "(string \<times> jsval) list"

text \<open>
  Every value the code throws is an \<open>Error\<close> object; only its \<open>message\<close> is ever
  inspected (\<open>error instanceof Error ? error.message : String(error)\<close>).
\<close>

datatype exn =
    Error string        \<comment> \<open>\<open>throw new Error(...)\<close> in the adapter\<close>
  | TypeError string    \<comment> \<open>raised by the JavaScript runtime\<close>
  | AxiosError string   \<comment> \<open>a rejected HTTP call: non-2xx status, network fault, timeout\<close>

fun message :: "exn \<Rightarrow> string" where
  "message (Error m) = m"
| "message (TypeError m) = m"
| "message (AxiosError m) = m"

fun truthy :: "jsval \<Rightarrow> bool" where
  "truthy JUndefined = False"
| "truthy JNull = False"
| "truthy (JBool b) = b"
| "truthy (JNum n) = (n \<noteq> 0)"
| "truthy (JStr s) = (s \<noteq> [])"
| "truthy (JArr xs) = True"
| "truthy (JObj kvs) = True"

fun nullish :: "jsval \<Rightarrow> bool" where
  "nullish JUndefined = True"
| "nullish JNull = True"
| "nullish v = False"

text \<open>\<open>a || b\<close>\<close>

definition js_or :: "jsval \<Rightarrow> jsval \<Rightarrow> jsval" where
  "js_or a b = (if truthy a then a else b)"

text \<open>
  \<open>lookup v k\<close> is \<open>v.k\<close> for a value that is neither \<open>undefined\<close> nor \<open>null\<close>.
  The adapter reads only keys that no prototype defines for objects, arrays, numbers and
  booleans, so the own properties decide; on a string the keys \<open>search\<close> and \<open>link\<close>
  would find a method, and no run of the adapter reads them from a string (an argument
  bag is an object, and a response body that is a string fails at \<open>title.rendered\<close>
  before \<open>link\<close> is read).
\<close>

fun lookup :: "jsval \<Rightarrow> string \<Rightarrow> jsval" where
  "lookup (JObj kvs) k = (case map_of kvs k of None \<Rightarrow> JUndefined | Some v \<Rightarrow> v)"
| "lookup v k = JUndefined"

fun type_name :: "jsval \<Rightarrow> string" where
  "type_name JNull = ''null''"
| "type_name v = ''undefined''"

text \<open>\<open>v.k\<close> in general: reading a property of \<open>undefined\<close> or \<open>null\<close> throws.\<close>

definition get_prop :: "jsval \<Rightarrow> string \<Rightarrow> exn + jsval" where
  "get_prop v k =
     (if nullish v
      then Inl (TypeError (''Cannot read properties of '' @ type_name v @ '' (reading ''
                            @ [CHR 0x27] @ k @ [CHR 0x27] @ '')''))
      else Inr (lookup v k))"

text \<open>\<open>v.k.rendered\<close>\<close>

definition rendered :: "jsval \<Rightarrow> string \<Rightarrow> exn + jsval" where
  "rendered v k = (case get_prop v k of Inl e \<Rightarrow> Inl e | Inr t \<Rightarrow> get_prop t ''rendered'')"

text \<open>\<open>v.k?.rendered\<close>\<close>

definition rendered_opt :: "jsval \<Rightarrow> string \<Rightarrow> jsval" where
  "rendered_opt v k = (if nullish (lookup v k) then JUndefined else lookup (lookup v k) ''rendered'')"

text \<open>A parameter default \<open>(x = d)\<close>: it applies to \<open>undefined\<close> only.\<close>

definition default_to :: "jsval \<Rightarrow> jsval \<Rightarrow> jsval" where
  "default_to d v = (if v = JUndefined then d else v)"

text \<open>\<open>...(v && { k: v })\<close> inside an object literal.\<close>

definition spread_if :: "string \<Rightarrow> jsval \<Rightarrow> (string \<times> jsval) list" where
  "spread_if k v = (if truthy v then [(k, v)] else [])"

text \<open>\<open>...(v !== undefined && { k: v })\<close>\<close>

definition spread_defined :: "string \<Rightarrow> jsval \<Rightarrow> (string \<times> jsval) list" where
  "spread_defined k v = (if v \<noteq> JUndefined then [(k, v)] else [])"

subsection \<open>Conversion to string, as a template literal does it\<close>

fun digit :: "nat \<Rightarrow> char" where
  "digit n = ''0123456789'' ! (n mod 10)"

fun decimal :: "nat \<Rightarrow> string" where
  "decimal n = (if n < 10 then [digit n] else decimal (n div 10) @ [digit n])"

declare decimal.simps [simp del]

fun join :: "string \<Rightarrow> string list \<Rightarrow> string" where
  "join sep [] = []"
| "join sep [s] = s"
| "join sep (s # t # ss) = s @ sep @ join sep (t # ss)"

text \<open>
  An object with an own property \<open>toString\<close> (a JSON value, so not callable) cannot be
  converted; an array converts its elements and joins them with commas.
\<close>

fun ToString :: "jsval \<Rightarrow> exn + string"
  and ToString_elems :: "jsval list \<Rightarrow> exn + string list" where
  "ToString JUndefined = Inr ''undefined''"
| "ToString JNull = Inr ''null''"
| "ToString (JBool b) = Inr (if b then ''true'' else ''false'')"
| "ToString (JNum n) = Inr (if n < 0 then CHR ''-'' # decimal (nat (- n)) else decimal (nat n))"
| "ToString (JStr s) = Inr s"
| "ToString (JArr xs) =
     (case ToString_elems xs of Inl e \<Rightarrow> Inl e | Inr ss \<Rightarrow> Inr (join '','' ss))"
| "ToString (JObj kvs) =
     (if ''toString'' \<in> set (map fst kvs)
      then Inl (TypeError ''Cannot convert object to primitive value'')
      else Inr ''[object Object]'')"
| "ToString_elems [] = Inr []"
| "ToString_elems (x # xs) =
     (case (if nullish x then Inr [] else ToString x) of
        Inl e \<Rightarrow> Inl e
      | Inr s \<Rightarrow> (case ToString_elems xs of Inl e \<Rightarrow> Inl e | Inr ss \<Rightarrow> Inr (s # ss)))"

section \<open>The HTTP client and the runtime\<close>

datatype verb = GET | POST | DELETE

text \<open>
  \<open>Base64 s\<close> stands for the bytes that \<open>Buffer.from(s, "base64")\<close> decodes from the
  string \<open>s\<close>; \<open>BufferOf v\<close> for the buffer Node builds from a value that is not a string.
\<close>

datatype buffer = Base64 string | BufferOf jsval

datatype payload = NoBody | JsonBody jsval | BinaryBody buffer

text \<open>
  A header computed by \<open>getMimeType\<close> is a string from its table, or, for the two
  extensions \<open>constructor\<close> and \<open>__proto__\<close>, the member of that name which the table
  object inherits.
\<close>

datatype header_value = HeaderText string | InheritedMember string

record request =
  verb :: verb
  url :: string
  query :: "(string \<times> jsval) list"
  config_headers :: "(string \<times> header_value) list"
  body :: payload

record response =
  data :: jsval
  headers :: "(string \<times> string) list"

text \<open>
  What the code leaves to its environment:
  \<^item> \<open>http\<close>: the answer of the axios instance to a request (a rejection is \<open>Inl\<close>), which
    may depend on every request issued before;
  \<^item> \<open>JSON_text\<close>: the text of \<open>JSON.stringify(v, null, 2)\<close> for a value other than
    \<open>undefined\<close>;
  \<^item> \<open>min_coerced\<close>: \<open>Math.min(v, m)\<close> when \<open>v\<close> is not a number and is coerced first;
  \<^item> \<open>buffer_rejects\<close>: the error, if any, with which \<open>Buffer.from(v, "base64")\<close> rejects
    a value that is not a string.
  The log of a run is the list of requests handed to the axios instance, oldest first.
  Log records written by the logger go to the standard error stream and are not modelled.
\<close>

record runtime =
  http :: "request list \<Rightarrow> request \<Rightarrow> exn + response"
  JSON_text :: "jsval \<Rightarrow> string"
  min_coerced :: "jsval \<Rightarrow> int \<Rightarrow> jsval"
  buffer_rejects :: "jsval \<Rightarrow> exn option"

type_synonym 'a outcome = "(exn + 'a) \<times> request list"

definition Math_min :: "runtime \<Rightarrow> jsval \<Rightarrow> int \<Rightarrow> jsval" where
  "Math_min R v m = (case v of JNum n \<Rightarrow> JNum (min n m) | _ \<Rightarrow> min_coerced R v m)"

definition Buffer_from :: "runtime \<Rightarrow> jsval \<Rightarrow> exn + buffer" where
  "Buffer_from R v =
     (case v of
        JStr s \<Rightarrow> Inr (Base64 s)
      | _ \<Rightarrow> (case buffer_rejects R v of Some e \<Rightarrow> Inl e | None \<Rightarrow> Inr (BufferOf v)))"

definition JSON_stringify :: "runtime \<Rightarrow> jsval \<Rightarrow> jsval" where
  "JSON_stringify R v = (if v = JUndefined then JUndefined else JStr (JSON_text R v))"

text \<open>\<open>response.headers[k]\<close>\<close>

definition header :: "response \<Rightarrow> string \<Rightarrow> jsval" where
  "header r k = (case map_of (headers r) k of None \<Rightarrow> JUndefined | Some s \<Rightarrow> JStr s)"

text \<open>
  \<open>await this.client.get/post/delete(...)\<close>: the request is issued, and the code goes on
  with the response or the rejection is thrown.
\<close>

definition await :: "runtime \<Rightarrow> request list \<Rightarrow> request \<Rightarrow> (response \<Rightarrow> exn + 'a) \<Rightarrow> 'a outcome" where
  "await R log req k =
     (case http R log req of
        Inl e \<Rightarrow> (Inl e, log @ [req])
      | Inr r \<Rightarrow> (k r, log @ [req]))"

text \<open>
  \<open>try { ... } catch (error) { throw new Error(`<what>: ${error.message}`) }\<close>
\<close>

definition rethrow :: "string \<Rightarrow> 'a outcome \<Rightarrow> 'a outcome" where
  "rethrow what r =
     (case r of
        (Inl e, log) \<Rightarrow> (Inl (Error (what @ '': '' @ message e)), log)
      | (Inr v, log) \<Rightarrow> (Inr v, log))"

text \<open>The page size of every list operation: \<open>Math.min(params.per_page || 10, 100)\<close>.\<close>

definition per_page_param :: "runtime \<Rightarrow> jsval \<Rightarrow> jsval" where
  "per_page_param R params = Math_min R (js_or (lookup params ''per_page'') (JNum 10)) 100"

text \<open>\<open>v.map(f)\<close>: only an array has \<open>map\<close>; an exception thrown by \<open>f\<close> ends the loop.\<close>

fun map_items :: "(jsval \<Rightarrow> exn + jsval) \<Rightarrow> jsval list \<Rightarrow> exn + jsval list" where
  "map_items f [] = Inr []"
| "map_items f (x # xs) =
     (case f x of
        Inl e \<Rightarrow> Inl e
      | Inr y \<Rightarrow> (case map_items f xs of Inl e \<Rightarrow> Inl e | Inr ys \<Rightarrow> Inr (y # ys)))"

definition array_map :: "jsval \<Rightarrow> (jsval \<Rightarrow> exn + jsval) \<Rightarrow> exn + jsval" where
  "array_map v f =
     (case v of
        JArr xs \<Rightarrow> (case map_items f xs of Inl e \<Rightarrow> Inl e | Inr ys \<Rightarrow> Inr (JArr ys))
      | _ \<Rightarrow> (case get_prop v ''map'' of
                Inl e \<Rightarrow> Inl e
              | Inr _ \<Rightarrow> Inl (TypeError ''response.data.map is not a function'')))"

section \<open>The REST adapter: class \<open>WordPressClient\<close>\<close>

text \<open>
  Each method takes the runtime, its JavaScript arguments and the log so far, and returns
  what the \<open>async\<close> method settles with (\<open>Inl\<close>: it rejects) together with the log
  extended by the requests it issued. A method that formats its identifier into the URL
  formats it again in the message of its \<open>catch\<close> block, so an identifier that cannot be
  converted to a string makes the method reject with that conversion error. The class is
  modelled in the variant that has the page and media methods; the post, category, tag and
  search methods are the same in both variants, and \<open>getSiteInfo\<close> differs in the
  capability flags it lists.
\<close>

subsection \<open>Posts\<close>

definition getPosts :: "runtime \<Rightarrow> jsval \<Rightarrow> request list \<Rightarrow> jsval outcome" where
  "getPosts R args log =
     rethrow ''Failed to fetch posts''
       (let params = default_to (JObj []) args in
        case get_prop params ''per_page'' of
          Inl e \<Rightarrow> (Inl e, log)
        | Inr _ \<Rightarrow>
            let page = js_or (lookup params ''page'') (JNum 1);
                queryParams =
                  [(''per_page'', per_page_param R params),
                   (''page'', page),
                   (''status'', js_or (lookup params ''status'') (JStr ''publish'')),
                   (''orderby'', js_or (lookup params ''orderby'') (JStr ''date'')),
                   (''order'', js_or (lookup params ''order'') (JStr ''desc''))]
                  @ spread_if ''search'' (lookup params ''search'')
            in await R log
                 \<lparr>verb = GET, url = ''/posts'', query = queryParams, config_headers = [],
                  body = NoBody\<rparr>
                 (\<lambda>response.
                    Inr (JObj [(''posts'', data response),
                               (''total'', header response ''x-wp-total''),
                               (''totalPages'', header response ''x-wp-totalpages''),
                               (''currentPage'', page)])))"

definition getPost :: "runtime \<Rightarrow> jsval \<Rightarrow> request list \<Rightarrow> jsval outcome" where
  "getPost R ident log =
     (case ToString ident of
        Inl e \<Rightarrow> (Inl e, log)
      | Inr sid \<Rightarrow>
          rethrow (''Failed to fetch post '' @ sid)
            (await R log
               \<lparr>verb = GET, url = ''/posts/'' @ sid, query = [], config_headers = [],
                body = NoBody\<rparr>
               (\<lambda>response. Inr (data response))))"

definition createPost :: "runtime \<Rightarrow> jsval \<Rightarrow> request list \<Rightarrow> jsval outcome" where
  "createPost R params log =
     rethrow ''Failed to create post''
       (case get_prop params ''title'' of
          Inl e \<Rightarrow> (Inl e, log)
        | Inr title \<Rightarrow>
            if \<not> truthy title then (Inl (Error ''Post title is required''), log)
            else
              let payload =
                    [(''title'', title),
                     (''content'', js_or (lookup params ''content'') (JStr [])),
                     (''excerpt'', js_or (lookup params ''excerpt'') (JStr [])),
                     (''status'', js_or (lookup params ''status'') (JStr ''draft''))]
                    @ spread_if ''featured_media'' (lookup params ''featured_media'')
                    @ spread_if ''categories'' (lookup params ''categories'')
                    @ spread_if ''tags'' (lookup params ''tags'')
              in await R log
                   \<lparr>verb = POST, url = ''/posts'', query = [], config_headers = [],
                    body = JsonBody (JObj payload)\<rparr>
                   (\<lambda>response.
                      case get_prop (data response) ''id'' of
                        Inl e \<Rightarrow> Inl e
                      | Inr i \<Rightarrow>
                          (case rendered (data response) ''title'' of
                             Inl e \<Rightarrow> Inl e
                           | Inr t \<Rightarrow>
                               (case rendered (data response) ''content'' of
                                  Inl e \<Rightarrow> Inl e
                                | Inr c \<Rightarrow>
                                    Inr (JObj [(''id'', i),
                                               (''title'', t),
                                               (''link'', lookup (data response) ''link''),
                                               (''status'', lookup (data response) ''status''),
                                               (''content'', c)])))))"

definition updatePost :: "runtime \<Rightarrow> jsval \<Rightarrow> jsval \<Rightarrow> request list \<Rightarrow> jsval outcome" where
  "updatePost R ident params log =
     (case ToString ident of
        Inl e \<Rightarrow> (Inl e, log)
      | Inr sid \<Rightarrow>
          rethrow (''Failed to update post '' @ sid)
            (case get_prop params ''title'' of
               Inl e \<Rightarrow> (Inl e, log)
             | Inr _ \<Rightarrow>
                 let payload =
                       spread_if ''title'' (lookup params ''title'')
                       @ spread_if ''content'' (lookup params ''content'')
                       @ spread_if ''excerpt'' (lookup params ''excerpt'')
                       @ spread_if ''status'' (lookup params ''status'')
                       @ spread_if ''featured_media'' (lookup params ''featured_media'')
                       @ spread_if ''categories'' (lookup params ''categories'')
                       @ spread_if ''tags'' (lookup params ''tags'')
                 in await R log
                      \<lparr>verb = POST, url = ''/posts/'' @ sid, query = [], config_headers = [],
                       body = JsonBody (JObj payload)\<rparr>
                      (\<lambda>response.
                         case get_prop (data response) ''id'' of
                           Inl e \<Rightarrow> Inl e
                         | Inr i \<Rightarrow>
                             (case rendered (data response) ''title'' of
                                Inl e \<Rightarrow> Inl e
                              | Inr t \<Rightarrow>
                                  Inr (JObj [(''id'', i),
                                             (''title'', t),
                                             (''link'', lookup (data response) ''link''),
                                             (''status'', lookup (data response) ''status'')])))))"

definition deletePost :: "runtime \<Rightarrow> jsval \<Rightarrow> jsval \<Rightarrow> request list \<Rightarrow> jsval outcome" where
  "deletePost R ident force_arg log =
     (let force = default_to (JBool False) force_arg in
      case ToString ident of
        Inl e \<Rightarrow> (Inl e, log)
      | Inr sid \<Rightarrow>
          rethrow (''Failed to delete post '' @ sid)
            (await R log
               \<lparr>verb = DELETE, url = ''/posts/'' @ sid, query = [(''force'', force)],
                config_headers = [], body = NoBody\<rparr>
               (\<lambda>response.
                  case get_prop (data response) ''id'' of
                    Inl e \<Rightarrow> Inl e
                  | Inr i \<Rightarrow>
                      Inr (JObj [(''message'',
                                  JStr (if truthy force then ''Post permanently deleted''
                                        else ''Post moved to trash'')),
                                 (''id'', i)]))))"

definition getCategories :: "runtime \<Rightarrow> jsval \<Rightarrow> request list \<Rightarrow> jsval outcome" where
  "getCategories R args log =
     rethrow ''Failed to fetch categories''
       (let params = default_to (JObj []) args in
        case get_prop params ''per_page'' of
          Inl e \<Rightarrow> (Inl e, log)
        | Inr _ \<Rightarrow>
            let queryParams =
                  [(''per_page'', per_page_param R params)]
                  @ spread_if ''search'' (lookup params ''search'')
            in await R log
                 \<lparr>verb = GET, url = ''/categories'', query = queryParams, config_headers = [],
                  body = NoBody\<rparr>
                 (\<lambda>response.
                    Inr (JObj [(''categories'', data response),
                               (''total'', header response ''x-wp-total'')])))"

definition getTags :: "runtime \<Rightarrow> jsval \<Rightarrow> request list \<Rightarrow> jsval outcome" where
  "getTags R args log =
     rethrow ''Failed to fetch tags''
       (let params = default_to (JObj []) args in
        case get_prop params ''per_page'' of
          Inl e \<Rightarrow> (Inl e, log)
        | Inr _ \<Rightarrow>
            let queryParams =
                  [(''per_page'', per_page_param R params)]
                  @ spread_if ''search'' (lookup params ''search'')
            in await R log
                 \<lparr>verb = GET, url = ''/tags'', query = queryParams, config_headers = [],
                  body = NoBody\<rparr>
                 (\<lambda>response.
                    Inr (JObj [(''tags'', data response),
                               (''total'', header response ''x-wp-total'')])))"

definition publishPost :: "runtime \<Rightarrow> jsval \<Rightarrow> request list \<Rightarrow> jsval outcome" where
  "publishPost R ident log =
     (case ToString ident of
        Inl e \<Rightarrow> (Inl e, log)
      | Inr sid \<Rightarrow>
          rethrow (''Failed to publish post '' @ sid)
            (await R log
               \<lparr>verb = POST, url = ''/posts/'' @ sid, query = [], config_headers = [],
                body = JsonBody (JObj [(''status'', JStr ''publish'')])\<rparr>
               (\<lambda>response.
                  case get_prop (data response) ''id'' of
                    Inl e \<Rightarrow> Inl e
                  | Inr i \<Rightarrow>
                      (case rendered (data response) ''title'' of
                         Inl e \<Rightarrow> Inl e
                       | Inr t \<Rightarrow>
                           Inr (JObj [(''id'', i),
                                      (''title'', t),
                                      (''link'', lookup (data response) ''link''),
                                      (''status'', lookup (data response) ''status'')])))))"

subsection \<open>Pages\<close>

definition getPages :: "runtime \<Rightarrow> jsval \<Rightarrow> request list \<Rightarrow> jsval outcome" where
  "getPages R args log =
     rethrow ''Failed to fetch pages''
       (let params = default_to (JObj []) args in
        case get_prop params ''per_page'' of
          Inl e \<Rightarrow> (Inl e, log)
        | Inr _ \<Rightarrow>
            let page = js_or (lookup params ''page'') (JNum 1);
                queryParams =
                  [(''per_page'', per_page_param R params),
                   (''page'', page),
                   (''status'', js_or (lookup params ''status'') (JStr ''publish'')),
                   (''orderby'', js_or (lookup params ''orderby'') (JStr ''date'')),
                   (''order'', js_or (lookup params ''order'') (JStr ''desc''))]
                  @ spread_if ''search'' (lookup params ''search'')
                  @ spread_defined ''parent'' (lookup params ''parent'')
            in await R log
                 \<lparr>verb = GET, url = ''/pages'', query = queryParams, config_headers = [],
                  body = NoBody\<rparr>
                 (\<lambda>response.
                    Inr (JObj [(''pages'', data response),
                               (''total'', header response ''x-wp-total''),
                               (''totalPages'', header response ''x-wp-totalpages''),
                               (''currentPage'', page)])))"

definition getPage :: "runtime \<Rightarrow> jsval \<Rightarrow> request list \<Rightarrow> jsval outcome" where
  "getPage R ident log =
     (case ToString ident of
        Inl e \<Rightarrow> (Inl e, log)
      | Inr sid \<Rightarrow>
          rethrow (''Failed to fetch page '' @ sid)
            (await R log
               \<lparr>verb = GET, url = ''/pages/'' @ sid, query = [], config_headers = [],
                body = NoBody\<rparr>
               (\<lambda>response. Inr (data response))))"

definition createPage :: "runtime \<Rightarrow> jsval \<Rightarrow> request list \<Rightarrow> jsval outcome" where
  "createPage R params log =
     rethrow ''Failed to create page''
       (case get_prop params ''title'' of
          Inl e \<Rightarrow> (Inl e, log)
        | Inr title \<Rightarrow>
            if \<not> truthy title then (Inl (Error ''Page title is required''), log)
            else
              let payload =
                    [(''title'', title),
                     (''content'', js_or (lookup params ''content'') (JStr [])),
                     (''excerpt'', js_or (lookup params ''excerpt'') (JStr [])),
                     (''status'', js_or (lookup params ''status'') (JStr ''draft''))]
                    @ spread_if ''featured_media'' (lookup params ''featured_media'')
                    @ spread_defined ''parent'' (lookup params ''parent'')
              in await R log
                   \<lparr>verb = POST, url = ''/pages'', query = [], config_headers = [],
                    body = JsonBody (JObj payload)\<rparr>
                   (\<lambda>response.
                      case get_prop (data response) ''id'' of
                        Inl e \<Rightarrow> Inl e
                      | Inr i \<Rightarrow>
                          (case rendered (data response) ''title'' of
                             Inl e \<Rightarrow> Inl e
                           | Inr t \<Rightarrow>
                               Inr (JObj [(''id'', i),
                                          (''title'', t),
                                          (''link'', lookup (data response) ''link''),
                                          (''status'', lookup (data response) ''status''),
                                          (''parent'', lookup (data response) ''parent'')]))))"

definition updatePage :: "runtime \<Rightarrow> jsval \<Rightarrow> jsval \<Rightarrow> request list \<Rightarrow> jsval outcome" where
  "updatePage R ident params log =
     (case ToString ident of
        Inl e \<Rightarrow> (Inl e, log)
      | Inr sid \<Rightarrow>
          rethrow (''Failed to update page '' @ sid)
            (case get_prop params ''title'' of
               Inl e \<Rightarrow> (Inl e, log)
             | Inr _ \<Rightarrow>
                 let payload =
                       spread_if ''title'' (lookup params ''title'')
                       @ spread_if ''content'' (lookup params ''content'')
                       @ spread_if ''excerpt'' (lookup params ''excerpt'')
                       @ spread_if ''status'' (lookup params ''status'')
                       @ spread_if ''featured_media'' (lookup params ''featured_media'')
                       @ spread_defined ''parent'' (lookup params ''parent'')
                 in await R log
                      \<lparr>verb = POST, url = ''/pages/'' @ sid, query = [], config_headers = [],
                       body = JsonBody (JObj payload)\<rparr>
                      (\<lambda>response.
                         case get_prop (data response) ''id'' of
                           Inl e \<Rightarrow> Inl e
                         | Inr i \<Rightarrow>
                             (case rendered (data response) ''title'' of
                                Inl e \<Rightarrow> Inl e
                              | Inr t \<Rightarrow>
                                  Inr (JObj [(''id'', i),
                                             (''title'', t),
                                             (''link'', lookup (data response) ''link''),
                                             (''status'', lookup (data response) ''status''),
                                             (''parent'', lookup (data response) ''parent'')])))))"

definition deletePage :: "runtime \<Rightarrow> jsval \<Rightarrow> jsval \<Rightarrow> request list \<Rightarrow> jsval outcome" where
  "deletePage R ident force_arg log =
     (let force = default_to (JBool False) force_arg in
      case ToString ident of
        Inl e \<Rightarrow> (Inl e, log)
      | Inr sid \<Rightarrow>
          rethrow (''Failed to delete page '' @ sid)
            (await R log
               \<lparr>verb = DELETE, url = ''/pages/'' @ sid, query = [(''force'', force)],
                config_headers = [], body = NoBody\<rparr>
               (\<lambda>response.
                  case get_prop (data response) ''id'' of
                    Inl e \<Rightarrow> Inl e
                  | Inr i \<Rightarrow>
                      Inr (JObj [(''message'',
                                  JStr (if truthy force then ''Page permanently deleted''
                                        else ''Page moved to trash'')),
                                 (''id'', i)]))))"

definition publishPage :: "runtime \<Rightarrow> jsval \<Rightarrow> request list \<Rightarrow> jsval outcome" where
  "publishPage R ident log =
     (case ToString ident of
        Inl e \<Rightarrow> (Inl e, log)
      | Inr sid \<Rightarrow>
          rethrow (''Failed to publish page '' @ sid)
            (await R log
               \<lparr>verb = POST, url = ''/pages/'' @ sid, query = [], config_headers = [],
                body = JsonBody (JObj [(''status'', JStr ''publish'')])\<rparr>
               (\<lambda>response.
                  case get_prop (data response) ''id'' of
                    Inl e \<Rightarrow> Inl e
                  | Inr i \<Rightarrow>
                      (case rendered (data response) ''title'' of
                         Inl e \<Rightarrow> Inl e
                       | Inr t \<Rightarrow>
                           Inr (JObj [(''id'', i),
                                      (''title'', t),
                                      (''link'', lookup (data response) ''link''),
                                      (''status'', lookup (data response) ''status'')])))))"

subsection \<open>Media\<close>

definition mimeTypes :: "(string \<times> string) list" where
  "mimeTypes =
     [(''jpg'', ''image/jpeg''),
      (''jpeg'', ''image/jpeg''),
      (''png'', ''image/png''),
      (''gif'', ''image/gif''),
      (''webp'', ''image/webp''),
      (''svg'', ''image/svg+xml''),
      (''pdf'', ''application/pdf''),
      (''mp4'', ''video/mp4''),
      (''mp3'', ''audio/mpeg''),
      (''wav'', ''audio/wav'')]"

text \<open>
  \<open>toLowerCase\<close> on the letters A to Z. A character outside ASCII stays outside ASCII
  when JavaScript lowers it, except the Kelvin sign, which becomes \<open>k\<close>, a letter of no
  key that \<open>getMimeType\<close> can find; so the lookup below is the one JavaScript makes.
\<close>

definition toLowerCase :: "string \<Rightarrow> string" where
  "toLowerCase s =
     map (\<lambda>c. case map_of (zip ''ABCDEFGHIJKLMNOPQRSTUVWXYZ'' ''abcdefghijklmnopqrstuvwxyz'') c of
                 None \<Rightarrow> c
               | Some l \<Rightarrow> l) s"

text \<open>\<open>s.split(".").pop()\<close>: what follows the last dot, or all of \<open>s\<close> without a dot.\<close>

definition split_pop :: "string \<Rightarrow> string" where
  "split_pop s = rev (takeWhile (\<lambda>c. c \<noteq> CHR ''.'') (rev s))"

definition getMimeType :: "jsval \<Rightarrow> exn + header_value" where
  "getMimeType filename =
     (case filename of
        JStr s \<Rightarrow>
          (let ext = toLowerCase (split_pop s) in
           case map_of mimeTypes ext of
             Some m \<Rightarrow> Inr (HeaderText m)
           | None \<Rightarrow>
               if ext = ''constructor'' \<or> ext = ''__proto__'' then Inr (InheritedMember ext)
               else Inr (HeaderText ''application/octet-stream''))
      | _ \<Rightarrow>
          (case get_prop filename ''split'' of
             Inl e \<Rightarrow> Inl e
           | Inr _ \<Rightarrow> Inl (TypeError ''filename.split is not a function'')))"

text \<open>The object that \<open>uploadMedia\<close> returns, read from a response.\<close>

definition uploaded :: "response \<Rightarrow> exn + jsval" where
  "uploaded response =
     (case get_prop (data response) ''id'' of
        Inl e \<Rightarrow> Inl e
      | Inr i \<Rightarrow>
          (case rendered (data response) ''title'' of
             Inl e \<Rightarrow> Inl e
           | Inr t \<Rightarrow>
               Inr (JObj [(''id'', i),
                          (''title'', t),
                          (''source_url'', lookup (data response) ''source_url''),
                          (''media_type'', lookup (data response) ''media_type''),
                          (''mime_type'', lookup (data response) ''mime_type''),
                          (''link'', lookup (data response) ''link'')])))"

definition upload_request :: "header_value \<Rightarrow> string \<Rightarrow> buffer \<Rightarrow> request" where
  "upload_request mime name fileBuffer =
     \<lparr>verb = POST, url = ''/media'', query = [],
      config_headers =
        [(''Content-Type'', mime),
         (''Content-Disposition'', HeaderText (''attachment; filename=\"'' @ name @ ''\"''))],
      body = BinaryBody fileBuffer\<rparr>"

text \<open>
  \<open>uploadMedia\<close> from its first \<open>await\<close> on: the upload, then, when a title, alternative
  text, caption or description was given, the update of the new resource. The result of
  the second request is dropped; what is returned is read from the first response.
\<close>

definition uploadMedia_requests ::
  "runtime \<Rightarrow> jsval \<Rightarrow> request list \<Rightarrow> request \<Rightarrow> jsval outcome" where
  "uploadMedia_requests R params log upload =
     (case http R log upload of
        Inl e \<Rightarrow> (Inl e, log @ [upload])
      | Inr response \<Rightarrow>
          let metaUpdates =
                spread_if ''title'' (lookup params ''title'')
                @ spread_if ''alt_text'' (lookup params ''alt_text'')
                @ spread_if ''caption'' (lookup params ''caption'')
                @ spread_if ''description'' (lookup params ''description'')
          in if 0 < length metaUpdates
             then
               (case get_prop (data response) ''id'' of
                  Inl e \<Rightarrow> (Inl e, log @ [upload])
                | Inr i \<Rightarrow>
                    (case ToString i of
                       Inl e \<Rightarrow> (Inl e, log @ [upload])
                     | Inr sid \<Rightarrow>
                         await R (log @ [upload])
                           \<lparr>verb = POST, url = ''/media/'' @ sid, query = [],
                            config_headers = [], body = JsonBody (JObj metaUpdates)\<rparr>
                           (\<lambda>_. uploaded response)))
             else (uploaded response, log @ [upload]))"

definition uploadMedia :: "runtime \<Rightarrow> jsval \<Rightarrow> request list \<Rightarrow> jsval outcome" where
  "uploadMedia R params log =
     rethrow ''Failed to upload media''
       (case get_prop params ''filename'' of
          Inl e \<Rightarrow> (Inl e, log)
        | Inr filename \<Rightarrow>
            if \<not> truthy filename then (Inl (Error ''Filename is required''), log)
            else if \<not> truthy (lookup params ''data'')
            then (Inl (Error ''File data (base64) is required''), log)
            else
              (case Buffer_from R (lookup params ''data'') of
                 Inl e \<Rightarrow> (Inl e, log)
               | Inr fileBuffer \<Rightarrow>
                   (case getMimeType filename of
                      Inl e \<Rightarrow> (Inl e, log)
                    | Inr mime \<Rightarrow>
                        (case ToString filename of
                           Inl e \<Rightarrow> (Inl e, log)
                         | Inr name \<Rightarrow>
                             uploadMedia_requests R params log
                               (upload_request mime name fileBuffer)))))"

definition getMedia :: "runtime \<Rightarrow> jsval \<Rightarrow> request list \<Rightarrow> jsval outcome" where
  "getMedia R ident log =
     (case ToString ident of
        Inl e \<Rightarrow> (Inl e, log)
      | Inr sid \<Rightarrow>
          rethrow (''Failed to fetch media '' @ sid)
            (await R log
               \<lparr>verb = GET, url = ''/media/'' @ sid, query = [], config_headers = [],
                body = NoBody\<rparr>
               (\<lambda>response.
                  case get_prop (data response) ''id'' of
                    Inl e \<Rightarrow> Inl e
                  | Inr i \<Rightarrow>
                      (case rendered (data response) ''title'' of
                         Inl e \<Rightarrow> Inl e
                       | Inr t \<Rightarrow>
                           Inr (JObj [(''id'', i),
                                      (''title'', t),
                                      (''source_url'', lookup (data response) ''source_url''),
                                      (''media_type'', lookup (data response) ''media_type''),
                                      (''mime_type'', lookup (data response) ''mime_type''),
                                      (''alt_text'', lookup (data response) ''alt_text''),
                                      (''caption'', rendered_opt (data response) ''caption''),
                                      (''description'', rendered_opt (data response) ''description''),
                                      (''media_details'', lookup (data response) ''media_details''),
                                      (''link'', lookup (data response) ''link'')])))))"

definition media_item :: "jsval \<Rightarrow> exn + jsval" where
  "media_item item =
     (case get_prop item ''id'' of
        Inl e \<Rightarrow> Inl e
      | Inr i \<Rightarrow>
          (case rendered item ''title'' of
             Inl e \<Rightarrow> Inl e
           | Inr t \<Rightarrow>
               Inr (JObj [(''id'', i),
                          (''title'', t),
                          (''source_url'', lookup item ''source_url''),
                          (''media_type'', lookup item ''media_type''),
                          (''mime_type'', lookup item ''mime_type''),
                          (''date'', lookup item ''date'')])))"

definition listMedia :: "runtime \<Rightarrow> jsval \<Rightarrow> request list \<Rightarrow> jsval outcome" where
  "listMedia R args log =
     rethrow ''Failed to list media''
       (let params = default_to (JObj []) args in
        case get_prop params ''per_page'' of
          Inl e \<Rightarrow> (Inl e, log)
        | Inr _ \<Rightarrow>
            let page = js_or (lookup params ''page'') (JNum 1);
                queryParams =
                  [(''per_page'', per_page_param R params),
                   (''page'', page),
                   (''orderby'', js_or (lookup params ''orderby'') (JStr ''date'')),
                   (''order'', js_or (lookup params ''order'') (JStr ''desc''))]
                  @ spread_if ''search'' (lookup params ''search'')
                  @ spread_if ''media_type'' (lookup params ''media_type'')
                  @ spread_if ''mime_type'' (lookup params ''mime_type'')
            in await R log
                 \<lparr>verb = GET, url = ''/media'', query = queryParams, config_headers = [],
                  body = NoBody\<rparr>
                 (\<lambda>response.
                    case array_map (data response) media_item of
                      Inl e \<Rightarrow> Inl e
                    | Inr items \<Rightarrow>
                        Inr (JObj [(''media'', items),
                                   (''total'', header response ''x-wp-total''),
                                   (''totalPages'', header response ''x-wp-totalpages''),
                                   (''currentPage'', page)])))"

definition deleteMedia :: "runtime \<Rightarrow> jsval \<Rightarrow> jsval \<Rightarrow> request list \<Rightarrow> jsval outcome" where
  "deleteMedia R ident force_arg log =
     (let force = default_to (JBool True) force_arg in
      case ToString ident of
        Inl e \<Rightarrow> (Inl e, log)
      | Inr sid \<Rightarrow>
          rethrow (''Failed to delete media '' @ sid)
            (await R log
               \<lparr>verb = DELETE, url = ''/media/'' @ sid, query = [(''force'', force)],
                config_headers = [], body = NoBody\<rparr>
               (\<lambda>response.
                  case get_prop (data response) ''id'' of
                    Inl e \<Rightarrow> Inl e
                  | Inr i \<Rightarrow>
                      Inr (JObj [(''message'', JStr ''Media permanently deleted''),
                                 (''id'', i)]))))"

subsection \<open>Site information and search\<close>

definition getSiteInfo :: "runtime \<Rightarrow> request list \<Rightarrow> jsval outcome" where
  "getSiteInfo R log =
     rethrow ''Failed to fetch site info''
       (await R log
          \<lparr>verb = GET, url = ''/'', query = [], config_headers = [], body = NoBody\<rparr>
          (\<lambda>response.
             case get_prop (data response) ''name'' of
               Inl e \<Rightarrow> Inl e
             | Inr n \<Rightarrow>
                 Inr (JObj [(''name'', n),
                            (''description'', lookup (data response) ''description''),
                            (''url'', lookup (data response) ''url''),
                            (''timezone'', lookup (data response) ''timezone''),
                            (''authentication'', JStr ''Basic Auth (Application Password)''),
                            (''capabilities'',
                             JObj [(''canCreatePosts'', JBool True),
                                   (''canUpdatePosts'', JBool True),
                                   (''canDeletePosts'', JBool True),
                                   (''canCreatePages'', JBool True),
                                   (''canUpdatePages'', JBool True),
                                   (''canDeletePages'', JBool True),
                                   (''canManageCategories'', JBool True),
                                   (''canManageTags'', JBool True),
                                   (''canUploadMedia'', JBool True),
                                   (''canDeleteMedia'', JBool True)])])))"

definition search_hit :: "jsval \<Rightarrow> exn + jsval" where
  "search_hit item =
     (case get_prop item ''id'' of
        Inl e \<Rightarrow> Inl e
      | Inr i \<Rightarrow>
          Inr (JObj [(''id'', i),
                     (''title'', lookup item ''title''),
                     (''url'', lookup item ''url''),
                     (''type'', lookup item ''type''),
                     (''subtype'', lookup item ''subtype'')]))"

definition searchSite :: "runtime \<Rightarrow> jsval \<Rightarrow> request list \<Rightarrow> jsval outcome" where
  "searchSite R params log =
     rethrow ''Failed to search site''
       (case get_prop params ''search'' of
          Inl e \<Rightarrow> (Inl e, log)
        | Inr search \<Rightarrow>
            if \<not> truthy search then (Inl (Error ''Search term is required''), log)
            else
              let page = js_or (lookup params ''page'') (JNum 1);
                  queryParams =
                    [(''search'', search),
                     (''per_page'', per_page_param R params),
                     (''page'', page)]
                    @ spread_if ''type'' (lookup params ''type'')
                    @ spread_if ''subtype'' (lookup params ''subtype'')
              in await R log
                   \<lparr>verb = GET, url = ''/search'', query = queryParams, config_headers = [],
                    body = NoBody\<rparr>
                   (\<lambda>response.
                      case array_map (data response) search_hit of
                        Inl e \<Rightarrow> Inl e
                      | Inr hits \<Rightarrow>
                          Inr (JObj [(''results'', hits),
                                     (''total'', header response ''x-wp-total''),
                                     (''totalPages'', header response ''x-wp-totalpages''),
                                     (''currentPage'', page),
                                     (''searchTerm'', search)])))"

section \<open>The tool catalogue and the call handler\<close>

text \<open>The names of the entries of \<open>tools\<close>, in the order of the catalogue.\<close>

definition tool_names :: "string list" where
  "tool_names =
     [''get_posts'', ''get_post'', ''create_post'', ''update_post'', ''delete_post'',
      ''get_categories'', ''get_tags'', ''publish_post'', ''get_site_info'', ''search_site'',
      ''upload_media'', ''get_media'', ''list_media'', ''delete_media'']"

text \<open>\<open>{ type: "text", text: ... }\<close>\<close>

datatype content_item = TextContent jsval

text \<open>The result of a call; \<open>isError\<close> is absent from a result that reports success.\<close>

record CallToolResult =
  content :: "content_item list"
  isError :: "bool option"

text \<open>
  \<open>return { content: [{ type: "text", text: JSON.stringify(await <method>, null, 2) }] }\<close>:
  a rejection of the method is thrown inside the handler's \<open>try\<close> block.
\<close>

definition text_result :: "runtime \<Rightarrow> jsval outcome \<Rightarrow> CallToolResult outcome" where
  "text_result R r =
     (case r of
        (Inl e, log) \<Rightarrow> (Inl e, log)
      | (Inr v, log) \<Rightarrow>
          (Inr \<lparr>content = [TextContent (JSON_stringify R v)], isError = None\<rparr>, log))"

text \<open>
  The \<open>switch\<close> inside the \<open>try\<close> block of the handler. The protocol layer hands over the
  tool name, a string, and the argument bag, an object or nothing at all (\<open>undefined\<close>).
\<close>

definition CallTool_try ::
  "runtime \<Rightarrow> string \<Rightarrow> (string \<times> jsval) list option \<Rightarrow> request list \<Rightarrow> CallToolResult outcome" where
  "CallTool_try R name arguments log =
     (let args = (case arguments of None \<Rightarrow> JUndefined | Some kvs \<Rightarrow> JObj kvs) in
      if name = ''get_posts'' then text_result R (getPosts R args log)
      else if name = ''get_post'' then
        (case get_prop args ''id'' of
           Inl e \<Rightarrow> (Inl e, log)
         | Inr i \<Rightarrow> text_result R (getPost R i log))
      else if name = ''create_post'' then text_result R (createPost R args log)
      else if name = ''update_post'' then
        (case get_prop args ''id'' of
           Inl e \<Rightarrow> (Inl e, log)
         | Inr i \<Rightarrow> text_result R (updatePost R i args log))
      else if name = ''delete_post'' then
        (case get_prop args ''id'' of
           Inl e \<Rightarrow> (Inl e, log)
         | Inr i \<Rightarrow> text_result R (deletePost R i (lookup args ''force'') log))
      else if name = ''get_categories'' then text_result R (getCategories R args log)
      else if name = ''get_tags'' then text_result R (getTags R args log)
      else if name = ''publish_post'' then
        (case get_prop args ''id'' of
           Inl e \<Rightarrow> (Inl e, log)
         | Inr i \<Rightarrow> text_result R (publishPost R i log))
      else if name = ''get_site_info'' then text_result R (getSiteInfo R log)
      else if name = ''search_site'' then text_result R (searchSite R args log)
      else if name = ''upload_media'' then text_result R (uploadMedia R args log)
      else if name = ''get_media'' then
        (case get_prop args ''id'' of
           Inl e \<Rightarrow> (Inl e, log)
         | Inr i \<Rightarrow> text_result R (getMedia R i log))
      else if name = ''list_media'' then text_result R (listMedia R args log)
      else if name = ''delete_media'' then
        (case get_prop args ''id'' of
           Inl e \<Rightarrow> (Inl e, log)
         | Inr i \<Rightarrow> text_result R (deleteMedia R i (lookup args ''force'') log))
      else
        (Inr \<lparr>content = [TextContent (JStr (''Unknown tool: '' @ name))], isError = Some True\<rparr>,
         log))"

text \<open>The handler registered for \<open>CallToolRequestSchema\<close>: the \<open>try\<close> block and its \<open>catch\<close>.\<close>

definition CallTool ::
  "runtime \<Rightarrow> string \<Rightarrow> (string \<times> jsval) list option \<Rightarrow> request list
     \<Rightarrow> CallToolResult \<times> request list" where
  "CallTool R name arguments log =
     (case CallTool_try R name arguments log of
        (Inl e, log') \<Rightarrow>
          (\<lparr>content = [TextContent (JStr (''Error: '' @ message e))], isError = Some True\<rparr>,
           log')
      | (Inr result, log') \<Rightarrow> (result, log'))"

section \<open>Runtimes for concrete runs\<close>

text \<open>A site that cannot be reached: every request is rejected.\<close>

definition offline :: runtime where
  "offline =
     \<lparr>http = (\<lambda>log req. Inl (AxiosError ''Network Error'')),
      JSON_text = (\<lambda>v. ''{}''),
      min_coerced = (\<lambda>v m. JNum m),
      buffer_rejects = (\<lambda>v. None)\<rparr>"

definition sample_body :: jsval where
  "sample_body =
     JObj [(''id'', JNum 7),
           (''title'', JObj [(''rendered'', JStr ''photo'')]),
           (''content'', JObj [(''rendered'', JStr '''')]),
           (''link'', JStr ''https://example.org/?p=7''),
           (''status'', JStr ''draft''),
           (''source_url'', JStr ''https://example.org/photo.jpg''),
           (''media_type'', JStr ''image''),
           (''mime_type'', JStr ''image/jpeg'')]"

text \<open>A site that answers every request with the same resource.\<close>

definition online :: runtime where
  "online =
     \<lparr>http = (\<lambda>log req. Inr \<lparr>data = sample_body, headers = []\<rparr>),
      JSON_text = (\<lambda>v. ''{}''),
      min_coerced = (\<lambda>v m. JNum m),
      buffer_rejects = (\<lambda>v. None)\<rparr>"

text \<open>A site that answers the first request of a run and rejects every later one.\<close>

definition flaky :: runtime where
  "flaky =
     \<lparr>http = (\<lambda>log req. if log = [] then Inr \<lparr>data = sample_body, headers = []\<rparr>
                          else Inl (AxiosError ''Request failed with status code 500'')),
      JSON_text = (\<lambda>v. ''{}''),
      min_coerced = (\<lambda>v m. JNum m),
      buffer_rejects = (\<lambda>v. None)\<rparr>"

text \<open>Argument bags of \<open>upload_media\<close>: with an alternative text, and with a title.\<close>

definition photo_args :: "(string \<times> jsval) list" where
  "photo_args =
     [(''filename'', JStr ''photo.jpg''), (''data'', JStr ''aGk=''), (''alt_text'', JStr ''x'')]"

definition titled_args :: "(string \<times> jsval) list" where
  "titled_args =
     [(''filename'', JStr ''photo.jpg''), (''data'', JStr ''aGk=''), (''title'', JStr ''Sunset'')]"

definition photo_upload :: request where
  "photo_upload = upload_request (HeaderText ''image/jpeg'') ''photo.jpg'' (Base64 ''aGk='')"

section \<open>Basic facts about the control operators\<close>

lemma rethrow_Inl: "rethrow what (Inl e, log) = (Inl (Error (what @ '': '' @ message e)), log)"
  by (simp add: rethrow_def)

lemma rethrow_Inr: "rethrow what (Inr v, log) = (Inr v, log)"
  by (simp add: rethrow_def)

lemma snd_rethrow: "snd (rethrow what r) = snd r"
  by (cases r; cases "fst r") (auto simp: rethrow_def)

lemma snd_await: "snd (await R log req k) = log @ [req]"
  by (simp add: await_def split: sum.split)

lemma snd_text_result: "snd (text_result R r) = snd r"
  by (cases r; cases "fst r") (auto simp: text_result_def)

lemma snd_CallTool:
  "snd (CallTool R name arguments log) = snd (CallTool_try R name arguments log)"
  by (simp add: CallTool_def split: prod.split sum.split)

lemma ToString_7: "ToString (JNum 7) = Inr ''7''"
  by code_simp

lemma get_prop_object: "get_prop (JObj kvs) k = Inr (lookup (JObj kvs) k)"
  by (simp add: get_prop_def)

lemma default_to_object: "default_to d (JObj kvs) = JObj kvs"
  by (simp add: default_to_def)

lemma lookup_Cons_same: "lookup (JObj ((k, v) # kvs)) k = v"
  by simp

lemma truthy_lookup_object:
  assumes "truthy (lookup params k)"
  obtains kvs where "params = JObj kvs"
  using assms by (cases params) auto

lemma CallTool_try_create_post:
  "CallTool_try R ''create_post'' arguments log =
     text_result R
       (createPost R (case arguments of None \<Rightarrow> JUndefined | Some kvs \<Rightarrow> JObj kvs) log)"
  by (simp add: CallTool_try_def)

lemma fst_rethrow_Inr: "fst (rethrow what r) = Inr v \<longleftrightarrow> fst r = Inr v"
  by (cases r; cases "fst r") (auto simp: rethrow_def)

lemma fst_text_result_Inr:
  "fst (text_result R r) = Inr res \<longleftrightarrow>
     (\<exists>v. fst r = Inr v \<and> res = \<lparr>content = [TextContent (JSON_stringify R v)], isError = None\<rparr>)"
  by (cases r; cases "fst r") (auto simp: text_result_def)

lemma CallTool_rejected:
  assumes "CallTool_try R name arguments log = text_result R r" and "fst r = Inl e"
  shows "fst (CallTool R name arguments log) =
           \<lparr>content = [TextContent (JStr (''Error: '' @ message e))], isError = Some True\<rparr>"
  using assms by (cases r) (auto simp: CallTool_def text_result_def)

section \<open>Unknown tool names\<close>

text \<open>
  Claim C2. For every operation name that is not in the dispatch table, the handler
  returns the failure result whose text is \<open>Unknown tool: <name>\<close>; it is returned by the
  \<open>default\<close> branch, not raised, and the log is unchanged: no request was issued.
\<close>

theorem unknown_tool:
  assumes "name \<notin> set tool_names"
  shows "CallTool_try R name arguments log =
           (Inr \<lparr>content = [TextContent (JStr (''Unknown tool: '' @ name))],
                 isError = Some True\<rparr>, log)
         \<and> CallTool R name arguments log =
           (\<lparr>content = [TextContent (JStr (''Unknown tool: '' @ name))],
             isError = Some True\<rparr>, log)"
proof -
  have "CallTool_try R name arguments log =
          (Inr \<lparr>content = [TextContent (JStr (''Unknown tool: '' @ name))],
                isError = Some True\<rparr>, log)"
    using assms unfolding CallTool_try_def tool_names_def Let_def by simp
  then show ?thesis by (simp add: CallTool_def)
qed

theorem unknown_tool_witness:
  "''nonexistent_tool'' \<notin> set tool_names \<and>
   CallTool offline ''nonexistent_tool'' (Some []) [] =
     (\<lparr>content = [TextContent (JStr ''Unknown tool: nonexistent_tool'')],
       isError = Some True\<rparr>, [])"
proof -
  have h: "''nonexistent_tool'' \<notin> set tool_names"
    by (simp add: tool_names_def)
  show ?thesis
    using h unknown_tool [OF h, of offline "Some []" "[]"] by simp
qed

section \<open>Deleting media: the \<open>force\<close> flag\<close>

text \<open>
  Claim C3. The claim requires that \<open>delete_media\<close> issues its DELETE with \<open>force\<close> true
  whatever the caller supplied. The code says the same of itself: the comment in
  \<open>deleteMedia\<close> reads ``WordPress requires force=true for media deletion (media doesn't
  support trash)'', the tool description reads ``Must be true for media'', and the message
  returned is always \<open>Media permanently deleted\<close>. Yet \<open>force\<close> is true only by the
  parameter default: a call that leaves \<open>force\<close> out sends \<open>force=true\<close>, while
  \<open>delete_media(7, false)\<close> sends \<open>force=false\<close>, from the adapter method and through the
  handler alike. The claim holds of the first call and fails at the second.
\<close>

theorem delete_media_forwards_false:
  "snd (deleteMedia online (JNum 7) (JBool False) []) =
     [\<lparr>verb = DELETE, url = ''/media/7'', query = [(''force'', JBool False)],
       config_headers = [], body = NoBody\<rparr>]
   \<and> snd (CallTool online ''delete_media'' (Some [(''id'', JNum 7), (''force'', JBool False)]) []) =
     [\<lparr>verb = DELETE, url = ''/media/7'', query = [(''force'', JBool False)],
       config_headers = [], body = NoBody\<rparr>]
   \<and> snd (CallTool online ''delete_media'' (Some [(''id'', JNum 7)]) []) =
     [\<lparr>verb = DELETE, url = ''/media/7'', query = [(''force'', JBool True)],
       config_headers = [], body = NoBody\<rparr>]
   \<and> fst (deleteMedia online (JNum 7) (JBool False) []) =
     Inr (JObj [(''message'', JStr ''Media permanently deleted''), (''id'', JNum 7)])"
  by code_simp

section \<open>The page size of the list operations\<close>

lemma per_page_param_object:
  assumes "lookup (JObj kvs) ''per_page'' = JUndefined \<and> sz = 10
           \<or> lookup (JObj kvs) ''per_page'' = JNum n \<and> sz = (if n = 0 then 10 else min n 100)"
  shows "per_page_param R (JObj kvs) = JNum sz"
  using assms
  by (auto simp: per_page_param_def js_or_def Math_min_def simp del: lookup.simps)

lemma getPosts_page_size:
  "\<exists>r. snd (getPosts R (JObj kvs) log) = log @ [r] \<and>
       lookup (JObj (query r)) ''per_page'' = per_page_param R (JObj kvs)"
  by (simp add: getPosts_def default_to_object get_prop_object Let_def snd_rethrow snd_await
                lookup_Cons_same del: lookup.simps)

lemma getPages_page_size:
  "\<exists>r. snd (getPages R (JObj kvs) log) = log @ [r] \<and>
       lookup (JObj (query r)) ''per_page'' = per_page_param R (JObj kvs)"
  by (simp add: getPages_def default_to_object get_prop_object Let_def snd_rethrow snd_await
                lookup_Cons_same del: lookup.simps)

lemma getCategories_page_size:
  "\<exists>r. snd (getCategories R (JObj kvs) log) = log @ [r] \<and>
       lookup (JObj (query r)) ''per_page'' = per_page_param R (JObj kvs)"
  by (simp add: getCategories_def default_to_object get_prop_object Let_def snd_rethrow
                snd_await lookup_Cons_same del: lookup.simps)

lemma getTags_page_size:
  "\<exists>r. snd (getTags R (JObj kvs) log) = log @ [r] \<and>
       lookup (JObj (query r)) ''per_page'' = per_page_param R (JObj kvs)"
  by (simp add: getTags_def default_to_object get_prop_object Let_def snd_rethrow snd_await
                lookup_Cons_same del: lookup.simps)

lemma listMedia_page_size:
  "\<exists>r. snd (listMedia R (JObj kvs) log) = log @ [r] \<and>
       lookup (JObj (query r)) ''per_page'' = per_page_param R (JObj kvs)"
  by (simp add: listMedia_def default_to_object get_prop_object Let_def snd_rethrow snd_await
                lookup_Cons_same del: lookup.simps)

lemma searchSite_page_size:
  assumes "truthy (lookup (JObj kvs) ''search'')"
  shows "\<exists>r. snd (searchSite R (JObj kvs) log) = log @ [r] \<and>
           lookup (JObj (query r)) ''per_page'' = per_page_param R (JObj kvs)"
  using assms
  by (simp add: searchSite_def get_prop_object Let_def snd_rethrow snd_await
           del: lookup.simps) simp

text \<open>
  Claim C4 says that the page size sent is the requested \<open>per_page\<close> clamped to the
  interval from 1 to 100, and that a negative \<open>per_page\<close> yields the default 10. The code
  computes \<open>Math.min(params.per_page || 10, 100)\<close>, which has no lower bound: \<open>per_page = -5\<close>
  is truthy and smaller than 100, so \<open>-5\<close> is what \<open>get_posts\<close> and \<open>list_media\<close> send.
\<close>

theorem negative_page_size_is_sent:
  "snd (CallTool offline ''get_posts'' (Some [(''per_page'', JNum (- 5))]) []) =
     [\<lparr>verb = GET, url = ''/posts'',
       query = [(''per_page'', JNum (- 5)), (''page'', JNum 1), (''status'', JStr ''publish''),
                (''orderby'', JStr ''date''), (''order'', JStr ''desc'')],
       config_headers = [], body = NoBody\<rparr>]
   \<and> snd (listMedia offline (JObj [(''per_page'', JNum (- 5))]) []) =
     [\<lparr>verb = GET, url = ''/media'',
       query = [(''per_page'', JNum (- 5)), (''page'', JNum 1), (''orderby'', JStr ''date''),
                (''order'', JStr ''desc'')],
       config_headers = [], body = NoBody\<rparr>]
   \<and> JNum (- 5) \<noteq> JNum 10
   \<and> \<not> (1 \<le> (- 5 :: int))"
  by code_simp

text \<open>
  Claim C4, amended. For a list operation called with an argument bag whose \<open>per_page\<close> is
  absent or an integer, the page size sent to the remote API is 10 when \<open>per_page\<close> is
  absent or 0, and the smaller of \<open>per_page\<close> and 100 otherwise: 500 yields 100, and a
  negative \<open>per_page\<close> is sent as it is. This holds for \<open>getPosts\<close>, \<open>getPages\<close>,
  \<open>getCategories\<close>, \<open>getTags\<close> and \<open>listMedia\<close>, and for \<open>searchSite\<close> once it has its
  search term. Each of them issues exactly one request.
\<close>

theorem page_size_sent:
  assumes "lookup (JObj kvs) ''per_page'' = JUndefined \<and> sz = 10
           \<or> lookup (JObj kvs) ''per_page'' = JNum n \<and> sz = (if n = 0 then 10 else min n 100)"
  shows "(\<exists>r. snd (getPosts R (JObj kvs) log) = log @ [r] \<and>
              lookup (JObj (query r)) ''per_page'' = JNum sz)
       \<and> (\<exists>r. snd (getPages R (JObj kvs) log) = log @ [r] \<and>
              lookup (JObj (query r)) ''per_page'' = JNum sz)
       \<and> (\<exists>r. snd (getCategories R (JObj kvs) log) = log @ [r] \<and>
              lookup (JObj (query r)) ''per_page'' = JNum sz)
       \<and> (\<exists>r. snd (getTags R (JObj kvs) log) = log @ [r] \<and>
              lookup (JObj (query r)) ''per_page'' = JNum sz)
       \<and> (\<exists>r. snd (listMedia R (JObj kvs) log) = log @ [r] \<and>
              lookup (JObj (query r)) ''per_page'' = JNum sz)
       \<and> (truthy (lookup (JObj kvs) ''search'') \<longrightarrow>
            (\<exists>r. snd (searchSite R (JObj kvs) log) = log @ [r] \<and>
                 lookup (JObj (query r)) ''per_page'' = JNum sz))"
proof -
  have sz: "per_page_param R (JObj kvs) = JNum sz"
    using assms by (rule per_page_param_object)
  show ?thesis
    using getPosts_page_size [of R kvs log] getPages_page_size [of R kvs log]
      getCategories_page_size [of R kvs log] getTags_page_size [of R kvs log]
      listMedia_page_size [of R kvs log] searchSite_page_size [of kvs R log]
    unfolding sz by blast
qed

theorem page_size_sent_witness:
  "lookup (JObj [(''search'', JStr ''cats''), (''per_page'', JNum 500)]) ''per_page'' = JNum 500
   \<and> (100 :: int) = (if (500 :: int) = 0 then 10 else min 500 100)
   \<and> truthy (lookup (JObj [(''search'', JStr ''cats''), (''per_page'', JNum 500)]) ''search'')
   \<and> (\<exists>r. snd (getPosts offline (JObj [(''search'', JStr ''cats''), (''per_page'', JNum 500)]) [])
             = [] @ [r]
           \<and> lookup (JObj (query r)) ''per_page'' = JNum 100)
   \<and> (\<exists>r. snd (listMedia offline (JObj [(''search'', JStr ''cats''), (''per_page'', JNum 500)]) [])
             = [] @ [r]
           \<and> lookup (JObj (query r)) ''per_page'' = JNum 100)
   \<and> (\<exists>r. snd (searchSite offline (JObj [(''search'', JStr ''cats''), (''per_page'', JNum 500)]) [])
             = [] @ [r]
           \<and> lookup (JObj (query r)) ''per_page'' = JNum 100)"
proof -
  have pp: "lookup (JObj [(''search'', JStr ''cats''), (''per_page'', JNum 500)]) ''per_page''
              = JNum 500"
    by simp
  have sz: "(100 :: int) = (if (500 :: int) = 0 then 10 else min 500 100)"
    by simp
  have st: "truthy (lookup (JObj [(''search'', JStr ''cats''), (''per_page'', JNum 500)]) ''search'')"
    by simp
  from pp sz have h:
    "lookup (JObj [(''search'', JStr ''cats''), (''per_page'', JNum 500)]) ''per_page'' = JUndefined
       \<and> (100 :: int) = 10
     \<or> lookup (JObj [(''search'', JStr ''cats''), (''per_page'', JNum 500)]) ''per_page'' = JNum 500
       \<and> (100 :: int) = (if (500 :: int) = 0 then 10 else min 500 100)"
    by blast
  from page_size_sent [OF h, of offline "[]"] pp sz st show ?thesis
    by blast
qed

section \<open>Uploading media\<close>

lemma metaUpdates_nonempty:
  "0 < length (spread_if ''title'' (lookup params ''title'')
                  @ spread_if ''alt_text'' (lookup params ''alt_text'')
                  @ spread_if ''caption'' (lookup params ''caption'')
                  @ spread_if ''description'' (lookup params ''description''))
   \<longleftrightarrow> truthy (lookup params ''title'') \<or> truthy (lookup params ''alt_text'')
        \<or> truthy (lookup params ''caption'') \<or> truthy (lookup params ''description'')"
  by (simp add: spread_if_def)

lemma uploadMedia_valid:
  assumes "lookup params ''filename'' = JStr fname" "fname \<noteq> []"
    and "truthy (lookup params ''data'')"
        "Buffer_from R (lookup params ''data'') = Inr fileBuffer"
    and "getMimeType (JStr fname) = Inr mime"
  shows "uploadMedia R params log =
           rethrow ''Failed to upload media''
             (uploadMedia_requests R params log (upload_request mime fname fileBuffer))"
proof -
  from assms(1) obtain kvs where "params = JObj kvs"
    by (cases params) auto
  then have "get_prop params ''filename'' = Inr (JStr fname)"
    using assms(1) by (simp add: get_prop_def del: lookup.simps)
  with assms show ?thesis
    by (simp add: uploadMedia_def del: lookup.simps)
qed

lemma uploadMedia_requests_plain:
  assumes "http R log upload = Inr response"
    and "\<not> (truthy (lookup params ''title'') \<or> truthy (lookup params ''alt_text'')
            \<or> truthy (lookup params ''caption'') \<or> truthy (lookup params ''description''))"
  shows "uploadMedia_requests R params log upload = (uploaded response, log @ [upload])"
  using assms unfolding uploadMedia_requests_def Let_def metaUpdates_nonempty
  by (simp del: lookup.simps)

lemma uploadMedia_requests_meta:
  assumes "http R log upload = Inr response"
    and "truthy (lookup params ''title'') \<or> truthy (lookup params ''alt_text'')
            \<or> truthy (lookup params ''caption'') \<or> truthy (lookup params ''description'')"
    and "\<not> nullish (data response)"
    and "ToString (lookup (data response) ''id'') = Inr sid"
  shows "uploadMedia_requests R params log upload =
           await R (log @ [upload])
             \<lparr>verb = POST, url = ''/media/'' @ sid, query = [], config_headers = [],
              body = JsonBody (JObj (spread_if ''title'' (lookup params ''title'')
                  @ spread_if ''alt_text'' (lookup params ''alt_text'')
                  @ spread_if ''caption'' (lookup params ''caption'')
                  @ spread_if ''description'' (lookup params ''description'')))\<rparr>
             (\<lambda>_. uploaded response)"
  using assms unfolding uploadMedia_requests_def Let_def metaUpdates_nonempty
  by (simp add: get_prop_def del: lookup.simps)

lemma CallTool_try_upload_media:
  "CallTool_try R ''upload_media'' (Some kvs) log = text_result R (uploadMedia R (JObj kvs) log)"
  by (simp add: CallTool_try_def)

text \<open>
  Claim C5. Take an \<open>upload_media\<close> call that passes validation (a file name, and data
  from which a buffer is made) and whose binary upload succeeds. If none of title,
  alternative text, caption and description is given (a falsy value counts as not given),
  exactly one request is issued. If one of them is
  given and the response to the upload carries the identifier of the new resource, exactly
  two requests are issued: the upload, then a POST of the metadata to \<open>/media/<id>\<close>; and
  if that second request fails, \<open>uploadMedia\<close> rejects with the message
  \<open>Failed to upload media: ...\<close> and the handler answers with a failure result.
\<close>

theorem upload_media_requests:
  assumes "lookup params ''filename'' = JStr fname" and "fname \<noteq> []"
    and "truthy (lookup params ''data'')"
    and "Buffer_from R (lookup params ''data'') = Inr fileBuffer"
    and "getMimeType (JStr fname) = Inr mime"
    and "http R log (upload_request mime fname fileBuffer) = Inr response"
  defines "upload \<equiv> upload_request mime fname fileBuffer"
    and "metaUpdates \<equiv> spread_if ''title'' (lookup params ''title'')
                  @ spread_if ''alt_text'' (lookup params ''alt_text'')
                  @ spread_if ''caption'' (lookup params ''caption'')
                  @ spread_if ''description'' (lookup params ''description'')"
    and "supplied \<equiv> truthy (lookup params ''title'') \<or> truthy (lookup params ''alt_text'')
            \<or> truthy (lookup params ''caption'') \<or> truthy (lookup params ''description'')"
  shows "(\<not> supplied \<longrightarrow> snd (uploadMedia R params log) = log @ [upload])
       \<and> (\<forall>sid. supplied \<and> \<not> nullish (data response)
                 \<and> ToString (lookup (data response) ''id'') = Inr sid \<longrightarrow>
              snd (uploadMedia R params log) =
                log @ [upload,
                       \<lparr>verb = POST, url = ''/media/'' @ sid, query = [], config_headers = [],
                        body = JsonBody (JObj metaUpdates)\<rparr>]
            \<and> (\<forall>e. http R (log @ [upload])
                       \<lparr>verb = POST, url = ''/media/'' @ sid, query = [], config_headers = [],
                        body = JsonBody (JObj metaUpdates)\<rparr> = Inl e \<longrightarrow>
                   fst (uploadMedia R params log) =
                     Inl (Error (''Failed to upload media: '' @ message e))
                 \<and> (\<forall>kvs. params = JObj kvs \<longrightarrow>
                       fst (CallTool R ''upload_media'' (Some kvs) log) =
                         \<lparr>content = [TextContent (JStr (''Error: Failed to upload media: ''
                                                        @ message e))],
                          isError = Some True\<rparr>)))"
proof -
  note valid = uploadMedia_valid [OF assms(1-5), of log, folded upload_def]
  have plain: "\<not> supplied \<longrightarrow> snd (uploadMedia R params log) = log @ [upload]"
    unfolding valid snd_rethrow supplied_def
    using uploadMedia_requests_plain [OF assms(6), of params] by (simp add: upload_def)
  have meta: "snd (uploadMedia R params log) =
                log @ [upload,
                       \<lparr>verb = POST, url = ''/media/'' @ sid, query = [], config_headers = [],
                        body = JsonBody (JObj metaUpdates)\<rparr>]
            \<and> (\<forall>e. http R (log @ [upload])
                       \<lparr>verb = POST, url = ''/media/'' @ sid, query = [], config_headers = [],
                        body = JsonBody (JObj metaUpdates)\<rparr> = Inl e \<longrightarrow>
                   fst (uploadMedia R params log) =
                     Inl (Error (''Failed to upload media: '' @ message e))
                 \<and> (\<forall>kvs. params = JObj kvs \<longrightarrow>
                       fst (CallTool R ''upload_media'' (Some kvs) log) =
                         \<lparr>content = [TextContent (JStr (''Error: Failed to upload media: ''
                                                        @ message e))],
                          isError = Some True\<rparr>))"
    if s: "supplied" and n: "\<not> nullish (data response)"
      and t: "ToString (lookup (data response) ''id'') = Inr sid" for sid
  proof -
    note req = uploadMedia_requests_meta [OF assms(6) s [unfolded supplied_def] n t,
        folded upload_def metaUpdates_def]
    have log': "snd (uploadMedia R params log) =
                log @ [upload,
                       \<lparr>verb = POST, url = ''/media/'' @ sid, query = [], config_headers = [],
                        body = JsonBody (JObj metaUpdates)\<rparr>]"
      unfolding valid snd_rethrow req snd_await by simp
    have fails: "fst (uploadMedia R params log) =
                     Inl (Error (''Failed to upload media: '' @ message e))
                 \<and> (\<forall>kvs. params = JObj kvs \<longrightarrow>
                       fst (CallTool R ''upload_media'' (Some kvs) log) =
                         \<lparr>content = [TextContent (JStr (''Error: Failed to upload media: ''
                                                        @ message e))],
                          isError = Some True\<rparr>)"
      if "http R (log @ [upload])
                       \<lparr>verb = POST, url = ''/media/'' @ sid, query = [], config_headers = [],
                        body = JsonBody (JObj metaUpdates)\<rparr> = Inl e" for e
    proof -
      have r: "fst (uploadMedia R params log) =
                     Inl (Error (''Failed to upload media: '' @ message e))"
        unfolding valid req using that by (simp add: await_def rethrow_def)
      have "fst (CallTool R ''upload_media'' (Some kvs) log) =
                         \<lparr>content = [TextContent (JStr (''Error: Failed to upload media: ''
                                                        @ message e))],
                          isError = Some True\<rparr>" if "params = JObj kvs" for kvs
        using CallTool_rejected [OF CallTool_try_upload_media, of R kvs log] r that by simp
      with r show ?thesis by blast
    qed
    from log' fails show ?thesis by blast
  qed
  from plain meta show ?thesis by blast
qed


theorem upload_media_requests_witness:
  "lookup (JObj photo_args) ''filename'' = JStr ''photo.jpg''
   \<and> truthy (lookup (JObj photo_args) ''data'')
   \<and> Buffer_from flaky (lookup (JObj photo_args) ''data'') = Inr (Base64 ''aGk='')
   \<and> getMimeType (JStr ''photo.jpg'') = Inr (HeaderText ''image/jpeg'')
   \<and> http flaky [] photo_upload = Inr \<lparr>data = sample_body, headers = []\<rparr>
   \<and> truthy (lookup (JObj photo_args) ''alt_text'')
   \<and> ToString (lookup sample_body ''id'') = Inr ''7''
   \<and> snd (uploadMedia flaky (JObj photo_args) []) =
       [] @ [photo_upload,
             \<lparr>verb = POST, url = ''/media/'' @ ''7'', query = [], config_headers = [],
              body = JsonBody (JObj (spread_if ''title'' (lookup (JObj photo_args) ''title'')
                  @ spread_if ''alt_text'' (lookup (JObj photo_args) ''alt_text'')
                  @ spread_if ''caption'' (lookup (JObj photo_args) ''caption'')
                  @ spread_if ''description'' (lookup (JObj photo_args) ''description'')))\<rparr>]
   \<and> fst (uploadMedia flaky (JObj photo_args) []) =
       Inl (Error (''Failed to upload media: ''
                   @ message (AxiosError ''Request failed with status code 500'')))
   \<and> snd (uploadMedia flaky (JObj (take 2 photo_args)) []) = [] @ [photo_upload]"
proof -
  have f: "lookup (JObj photo_args) ''filename'' = JStr ''photo.jpg''"
    by (simp add: photo_args_def)
  have f0: "lookup (JObj (take 2 photo_args)) ''filename'' = JStr ''photo.jpg''"
    by (simp add: photo_args_def)
  have ne: "''photo.jpg'' \<noteq> []"
    by simp
  have d: "truthy (lookup (JObj photo_args) ''data'')"
    by (simp add: photo_args_def)
  have b: "Buffer_from flaky (lookup (JObj photo_args) ''data'') = Inr (Base64 ''aGk='')"
    by (simp add: photo_args_def Buffer_from_def)
  have d0: "truthy (lookup (JObj (take 2 photo_args)) ''data'')"
    by (simp add: photo_args_def)
  have b0: "Buffer_from flaky (lookup (JObj (take 2 photo_args)) ''data'') = Inr (Base64 ''aGk='')"
    by (simp add: photo_args_def Buffer_from_def)
  have m: "getMimeType (JStr ''photo.jpg'') = Inr (HeaderText ''image/jpeg'')"
    by code_simp
  have u: "http flaky [] (upload_request (HeaderText ''image/jpeg'') ''photo.jpg'' (Base64 ''aGk=''))
             = Inr \<lparr>data = sample_body, headers = []\<rparr>"
    by (simp add: flaky_def)
  have a: "truthy (lookup (JObj photo_args) ''alt_text'')"
    by (simp add: photo_args_def)
  have none: "\<not> (truthy (lookup (JObj (take 2 photo_args)) ''title'')
               \<or> truthy (lookup (JObj (take 2 photo_args)) ''alt_text'')
               \<or> truthy (lookup (JObj (take 2 photo_args)) ''caption'')
               \<or> truthy (lookup (JObj (take 2 photo_args)) ''description''))"
    by (simp add: photo_args_def)
  have n: "\<not> nullish (data \<lparr>data = sample_body, headers = []\<rparr>)"
    by (simp add: sample_body_def)
  have i: "ToString (lookup sample_body ''id'') = Inr ''7''"
    by code_simp
  then have i': "ToString (lookup (data \<lparr>data = sample_body, headers = []\<rparr>) ''id'') = Inr ''7''"
    by simp
  have r: "http flaky ([] @ [upload_request (HeaderText ''image/jpeg'') ''photo.jpg'' (Base64 ''aGk='')])
             \<lparr>verb = POST, url = ''/media/'' @ ''7'', query = [], config_headers = [],
              body = JsonBody (JObj (spread_if ''title'' (lookup (JObj photo_args) ''title'')
                  @ spread_if ''alt_text'' (lookup (JObj photo_args) ''alt_text'')
                  @ spread_if ''caption'' (lookup (JObj photo_args) ''caption'')
                  @ spread_if ''description'' (lookup (JObj photo_args) ''description'')))\<rparr>
           = Inl (AxiosError ''Request failed with status code 500'')"
    by (simp add: flaky_def)
  note with_meta = upload_media_requests [OF f ne d b m u]
  note without = upload_media_requests [OF f0 ne d0 b0 m u]
  from without none
  have w: "snd (uploadMedia flaky (JObj (take 2 photo_args)) []) = [] @ [photo_upload]"
    unfolding photo_upload_def by blast
  from with_meta a n i' r
  have "snd (uploadMedia flaky (JObj photo_args) []) =
       [] @ [photo_upload,
             \<lparr>verb = POST, url = ''/media/'' @ ''7'', query = [], config_headers = [],
              body = JsonBody (JObj (spread_if ''title'' (lookup (JObj photo_args) ''title'')
                  @ spread_if ''alt_text'' (lookup (JObj photo_args) ''alt_text'')
                  @ spread_if ''caption'' (lookup (JObj photo_args) ''caption'')
                  @ spread_if ''description'' (lookup (JObj photo_args) ''description'')))\<rparr>]
   \<and> fst (uploadMedia flaky (JObj photo_args) []) =
       Inl (Error (''Failed to upload media: ''
                   @ message (AxiosError ''Request failed with status code 500'')))"
    unfolding photo_upload_def by blast
  with f d b m u a i w show ?thesis
    unfolding photo_upload_def by blast
qed


section \<open>Creating a post or a page\<close>

lemma createPost_no_title:
  assumes "\<not> truthy (lookup params ''title'')"
  shows "createPost R params log =
           (if nullish params
            then (Inl (Error (''Failed to create post: '' @ ''Cannot read properties of '' @ type_name params
                         @ '' (reading '' @ [CHR 0x27] @ ''title'' @ [CHR 0x27] @ '')'')), log)
            else (Inl (Error ''Failed to create post: Post title is required''), log))"
  using assms by (simp add: createPost_def get_prop_def rethrow_def del: lookup.simps)

lemma createPage_no_title:
  assumes "\<not> truthy (lookup params ''title'')"
  shows "createPage R params log =
           (if nullish params
            then (Inl (Error (''Failed to create page: '' @ ''Cannot read properties of '' @ type_name params
                         @ '' (reading '' @ [CHR 0x27] @ ''title'' @ [CHR 0x27] @ '')'')), log)
            else (Inl (Error ''Failed to create page: Page title is required''), log))"
  using assms by (simp add: createPage_def get_prop_def rethrow_def del: lookup.simps)

text \<open>
  Claim C6. When the title of a \<open>createPost\<close> or \<open>createPage\<close> call is absent or empty
  (any falsy value), the method rejects and the log is unchanged: the call fails before any
  request is issued. With an argument object the failure is the validation error
  \<open>Post title is required\<close> (\<open>Page title is required\<close>); without one it is the
  runtime's error for reading \<open>title\<close>. The handler turns the rejection of
  \<open>create_post\<close> into a failure result, again without a request.
\<close>

theorem create_requires_title:
  assumes "\<not> truthy (lookup params ''title'')"
  shows "(\<exists>e. createPost R params log = (Inl e, log))
       \<and> (\<exists>e. createPage R params log = (Inl e, log))
       \<and> (\<not> nullish params \<longrightarrow>
            createPost R params log =
              (Inl (Error ''Failed to create post: Post title is required''), log)
          \<and> createPage R params log =
              (Inl (Error ''Failed to create page: Page title is required''), log))
       \<and> (\<forall>kvs. params = JObj kvs \<longrightarrow>
            CallTool R ''create_post'' (Some kvs) log =
              (\<lparr>content = [TextContent
                   (JStr ''Error: Failed to create post: Post title is required'')],
                isError = Some True\<rparr>, log))
       \<and> (params = JUndefined \<longrightarrow>
            snd (CallTool R ''create_post'' None log) = log
          \<and> isError (fst (CallTool R ''create_post'' None log)) = Some True)"
proof -
  note p = createPost_no_title [OF assms, of R log]
  note g = createPage_no_title [OF assms, of R log]
  have a: "\<exists>e. createPost R params log = (Inl e, log)"
    unfolding p by simp
  have b: "\<exists>e. createPage R params log = (Inl e, log)"
    unfolding g by simp
  have c: "\<not> nullish params \<longrightarrow>
            createPost R params log =
              (Inl (Error ''Failed to create post: Post title is required''), log)
          \<and> createPage R params log =
              (Inl (Error ''Failed to create page: Page title is required''), log)"
    unfolding p g by simp
  have d: "\<forall>kvs. params = JObj kvs \<longrightarrow>
            CallTool R ''create_post'' (Some kvs) log =
              (\<lparr>content = [TextContent
                   (JStr ''Error: Failed to create post: Post title is required'')],
                isError = Some True\<rparr>, log)"
  proof (intro allI impI)
    fix kvs assume "params = JObj kvs"
    with p have "createPost R (JObj kvs) log =
       (Inl (Error ''Failed to create post: Post title is required''), log)"
      by simp
    then show "CallTool R ''create_post'' (Some kvs) log =
              (\<lparr>content = [TextContent
                   (JStr ''Error: Failed to create post: Post title is required'')],
                isError = Some True\<rparr>, log)"
      by (simp add: CallTool_def CallTool_try_create_post text_result_def)
  qed
  have e: "params = JUndefined \<longrightarrow>
            snd (CallTool R ''create_post'' None log) = log
          \<and> isError (fst (CallTool R ''create_post'' None log)) = Some True"
  proof
    assume "params = JUndefined"
    with p have "\<exists>e. createPost R JUndefined log = (Inl e, log)"
      by simp
    then show "snd (CallTool R ''create_post'' None log) = log
          \<and> isError (fst (CallTool R ''create_post'' None log)) = Some True"
      by (auto simp: CallTool_def CallTool_try_create_post text_result_def)
  qed
  from a b c d e show ?thesis by blast
qed

theorem create_requires_title_witness:
  "\<not> truthy (lookup (JObj []) ''title'')
   \<and> \<not> nullish (JObj [])
   \<and> createPost online (JObj []) [] =
       (Inl (Error ''Failed to create post: Post title is required''), [])
   \<and> createPage online (JObj []) [] =
       (Inl (Error ''Failed to create page: Page title is required''), [])
   \<and> CallTool online ''create_post'' (Some []) [] =
       (\<lparr>content = [TextContent (JStr ''Error: Failed to create post: Post title is required'')],
         isError = Some True\<rparr>, [])"
proof -
  have h: "\<not> truthy (lookup (JObj []) ''title'')"
    by simp
  have n: "\<not> nullish (JObj [])"
    by simp
  from create_requires_title [OF h, of online "[]"] h n show ?thesis
    by blast
qed

text \<open>
  Claim C7. A \<open>createPost\<close> call with a non-empty title issues one POST to \<open>/posts\<close>
  whose payload carries that title; when no status is supplied the payload's status is
  \<open>draft\<close>, never \<open>publish\<close>, and content and excerpt are the empty string when they are
  not supplied.
\<close>

theorem create_post_defaults:
  assumes "truthy (lookup params ''title'')"
  shows "\<exists>payload.
           snd (createPost R params log) =
             log @ [\<lparr>verb = POST, url = ''/posts'', query = [], config_headers = [],
                     body = JsonBody (JObj payload)\<rparr>]
         \<and> lookup (JObj payload) ''title'' = lookup params ''title''
         \<and> (\<not> truthy (lookup params ''status'') \<longrightarrow>
              lookup (JObj payload) ''status'' = JStr ''draft''
            \<and> lookup (JObj payload) ''status'' \<noteq> JStr ''publish'')
         \<and> (\<not> truthy (lookup params ''content'') \<longrightarrow>
              lookup (JObj payload) ''content'' = JStr [])
         \<and> (\<not> truthy (lookup params ''excerpt'') \<longrightarrow>
              lookup (JObj payload) ''excerpt'' = JStr [])"
proof -
  from assms obtain kvs where obj: "params = JObj kvs"
    by (rule truthy_lookup_object)
  define payload where "payload =
        [(''title'', lookup params ''title''),
         (''content'', js_or (lookup params ''content'') (JStr [])),
         (''excerpt'', js_or (lookup params ''excerpt'') (JStr [])),
         (''status'', js_or (lookup params ''status'') (JStr ''draft''))]
        @ spread_if ''featured_media'' (lookup params ''featured_media'')
        @ spread_if ''categories'' (lookup params ''categories'')
        @ spread_if ''tags'' (lookup params ''tags'')"
  have sent: "snd (createPost R params log) =
             log @ [\<lparr>verb = POST, url = ''/posts'', query = [], config_headers = [],
                     body = JsonBody (JObj payload)\<rparr>]"
    using assms unfolding obj payload_def
    by (simp add: createPost_def get_prop_object Let_def snd_rethrow snd_await
             del: lookup.simps)
  have t: "lookup (JObj payload) ''title'' = lookup params ''title''"
    by (simp add: payload_def)
  have s: "\<not> truthy (lookup params ''status'') \<longrightarrow>
              lookup (JObj payload) ''status'' = JStr ''draft''
            \<and> lookup (JObj payload) ''status'' \<noteq> JStr ''publish''"
    by (simp add: payload_def js_or_def)
  have c: "\<not> truthy (lookup params ''content'') \<longrightarrow> lookup (JObj payload) ''content'' = JStr []"
    by (simp add: payload_def js_or_def)
  have x: "\<not> truthy (lookup params ''excerpt'') \<longrightarrow> lookup (JObj payload) ''excerpt'' = JStr []"
    by (simp add: payload_def js_or_def)
  from sent t s c x show ?thesis by blast
qed

theorem create_post_defaults_witness:
  "truthy (lookup (JObj [(''title'', JStr ''Hello'')]) ''title'')
   \<and> \<not> truthy (lookup (JObj [(''title'', JStr ''Hello'')]) ''status'')
   \<and> \<not> truthy (lookup (JObj [(''title'', JStr ''Hello'')]) ''content'')
   \<and> \<not> truthy (lookup (JObj [(''title'', JStr ''Hello'')]) ''excerpt'')
   \<and> (\<exists>payload.
         snd (createPost online (JObj [(''title'', JStr ''Hello'')]) []) =
           [] @ [\<lparr>verb = POST, url = ''/posts'', query = [], config_headers = [],
                  body = JsonBody (JObj payload)\<rparr>]
       \<and> lookup (JObj payload) ''title'' = JStr ''Hello''
       \<and> lookup (JObj payload) ''status'' = JStr ''draft''
       \<and> lookup (JObj payload) ''content'' = JStr []
       \<and> lookup (JObj payload) ''excerpt'' = JStr [])"
proof -
  have t: "truthy (lookup (JObj [(''title'', JStr ''Hello'')]) ''title'')"
    by simp
  have s: "\<not> truthy (lookup (JObj [(''title'', JStr ''Hello'')]) ''status'')"
    by simp
  have c: "\<not> truthy (lookup (JObj [(''title'', JStr ''Hello'')]) ''content'')"
    by simp
  have x: "\<not> truthy (lookup (JObj [(''title'', JStr ''Hello'')]) ''excerpt'')"
    by simp
  have v: "lookup (JObj [(''title'', JStr ''Hello'')]) ''title'' = JStr ''Hello''"
    by simp
  from create_post_defaults [OF t, of online "[]"] s c x
  have "\<exists>payload.
         snd (createPost online (JObj [(''title'', JStr ''Hello'')]) []) =
           [] @ [\<lparr>verb = POST, url = ''/posts'', query = [], config_headers = [],
                  body = JsonBody (JObj payload)\<rparr>]
       \<and> lookup (JObj payload) ''title'' = JStr ''Hello''
       \<and> lookup (JObj payload) ''status'' = JStr ''draft''
       \<and> lookup (JObj payload) ''content'' = JStr []
       \<and> lookup (JObj payload) ''excerpt'' = JStr []"
    unfolding v by blast
  with t s c x show ?thesis by blast
qed

section \<open>Publishing a post\<close>

lemma updatePost_status_only:
  assumes "ToString ident = Inr sid"
    and "lookup params ''status'' = JStr ''publish''"
    and "\<not> nullish params"
    and "\<not> truthy (lookup params ''title'')" "\<not> truthy (lookup params ''content'')"
        "\<not> truthy (lookup params ''excerpt'')" "\<not> truthy (lookup params ''featured_media'')"
        "\<not> truthy (lookup params ''categories'')" "\<not> truthy (lookup params ''tags'')"
  shows "updatePost R ident params log =
           rethrow (''Failed to update post '' @ sid)
             (await R log
                \<lparr>verb = POST, url = ''/posts/'' @ sid, query = [], config_headers = [],
                 body = JsonBody (JObj [(''status'', JStr ''publish'')])\<rparr>
                (\<lambda>response.
                   case get_prop (data response) ''id'' of
                     Inl e \<Rightarrow> Inl e
                   | Inr i \<Rightarrow>
                       (case rendered (data response) ''title'' of
                          Inl e \<Rightarrow> Inl e
                        | Inr t \<Rightarrow>
                            Inr (JObj [(''id'', i),
                                       (''title'', t),
                                       (''link'', lookup (data response) ''link''),
                                       (''status'', lookup (data response) ''status'')]))))"
  using assms
  by (simp add: updatePost_def get_prop_def spread_if_def Let_def del: lookup.simps)

lemma publishPost_unfold:
  assumes "ToString ident = Inr sid"
  shows "publishPost R ident log =
           rethrow (''Failed to publish post '' @ sid)
             (await R log
                \<lparr>verb = POST, url = ''/posts/'' @ sid, query = [], config_headers = [],
                 body = JsonBody (JObj [(''status'', JStr ''publish'')])\<rparr>
                (\<lambda>response.
                   case get_prop (data response) ''id'' of
                     Inl e \<Rightarrow> Inl e
                   | Inr i \<Rightarrow>
                       (case rendered (data response) ''title'' of
                          Inl e \<Rightarrow> Inl e
                        | Inr t \<Rightarrow>
                            Inr (JObj [(''id'', i),
                                       (''title'', t),
                                       (''link'', lookup (data response) ''link''),
                                       (''status'', lookup (data response) ''status'')]))))"
  using assms by (simp add: publishPost_def)

lemma publish_update_same:
  assumes "lookup params ''status'' = JStr ''publish''"
    and "\<not> nullish params"
    and "\<not> truthy (lookup params ''title'')" "\<not> truthy (lookup params ''content'')"
        "\<not> truthy (lookup params ''excerpt'')" "\<not> truthy (lookup params ''featured_media'')"
        "\<not> truthy (lookup params ''categories'')" "\<not> truthy (lookup params ''tags'')"
  shows "snd (publishPost R ident log) = snd (updatePost R ident params log)"
    and "fst (publishPost R ident log) = Inr v \<longleftrightarrow> fst (updatePost R ident params log) = Inr v"
proof -
  show "snd (publishPost R ident log) = snd (updatePost R ident params log)"
  proof (cases "ToString ident")
    case (Inl e)
    then show ?thesis by (simp add: publishPost_def updatePost_def)
  next
    case (Inr sid)
    show ?thesis
      unfolding publishPost_unfold [OF Inr] updatePost_status_only [OF Inr assms]
      by (simp add: snd_rethrow)
  qed
  show "fst (publishPost R ident log) = Inr v \<longleftrightarrow> fst (updatePost R ident params log) = Inr v"
  proof (cases "ToString ident")
    case (Inl e)
    then show ?thesis by (simp add: publishPost_def updatePost_def)
  next
    case (Inr sid)
    show ?thesis
      unfolding publishPost_unfold [OF Inr] updatePost_status_only [OF Inr assms]
      by (simp add: fst_rethrow_Inr)
  qed
qed

lemma publishPost_success:
  assumes "fst (publishPost R ident log) = Inr v"
  shows "\<exists>sid response.
           ToString ident = Inr sid
         \<and> http R log \<lparr>verb = POST, url = ''/posts/'' @ sid, query = [], config_headers = [],
                 body = JsonBody (JObj [(''status'', JStr ''publish'')])\<rparr> = Inr response
         \<and> v = JObj [(''id'', lookup (data response) ''id''),
                     (''title'', lookup (lookup (data response) ''title'') ''rendered''),
                     (''link'', lookup (data response) ''link''),
                     (''status'', lookup (data response) ''status'')]"
proof (cases "ToString ident")
  case (Inl e)
  with assms show ?thesis by (simp add: publishPost_def)
next
  case (Inr sid)
  from assms show ?thesis
    unfolding publishPost_unfold [OF Inr] fst_rethrow_Inr
    by (auto simp: Inr await_def get_prop_def rendered_def split: sum.splits if_splits)
qed

lemma CallTool_try_publish_post:
  "CallTool_try R ''publish_post'' (Some kvs) log =
     text_result R (publishPost R (lookup (JObj kvs) ''id'') log)"
  by (simp add: CallTool_try_def get_prop_def)

lemma CallTool_try_update_post:
  "CallTool_try R ''update_post'' (Some kvs) log =
     text_result R (updatePost R (lookup (JObj kvs) ''id'') (JObj kvs) log)"
  by (simp add: CallTool_try_def get_prop_def)

text \<open>
  Claim C8. For every post identifier, \<open>publishPost(id)\<close> and
  \<open>updatePost(id, {status: "publish"})\<close> issue the same requests (one POST to
  \<open>/posts/<id>\<close> with the payload \<open>{status: "publish"}\<close>), one succeeds exactly when the
  other does, and then both return the same object: the identifier, rendered title, link
  and status of the response. The same holds for the tools \<open>publish_post\<close> and
  \<open>update_post\<close> behind the handler. (When they fail, the two messages name their own
  operation.)
\<close>

theorem publish_is_update_with_status:
  "snd (publishPost R ident log) =
     snd (updatePost R ident (JObj [(''status'', JStr ''publish'')]) log)
   \<and> (\<forall>v. fst (publishPost R ident log) = Inr v \<longleftrightarrow>
           fst (updatePost R ident (JObj [(''status'', JStr ''publish'')]) log) = Inr v)
   \<and> (\<forall>sid. ToString ident = Inr sid \<longrightarrow>
         snd (publishPost R ident log) =
           log @ [\<lparr>verb = POST, url = ''/posts/'' @ sid, query = [], config_headers = [],
                   body = JsonBody (JObj [(''status'', JStr ''publish'')])\<rparr>])
   \<and> (\<forall>v. fst (publishPost R ident log) = Inr v \<longrightarrow>
         (\<exists>sid response.
            ToString ident = Inr sid
          \<and> http R log \<lparr>verb = POST, url = ''/posts/'' @ sid, query = [], config_headers = [],
                         body = JsonBody (JObj [(''status'', JStr ''publish'')])\<rparr> = Inr response
          \<and> v = JObj [(''id'', lookup (data response) ''id''),
                      (''title'', lookup (lookup (data response) ''title'') ''rendered''),
                      (''link'', lookup (data response) ''link''),
                      (''status'', lookup (data response) ''status'')]))
   \<and> snd (CallTool R ''publish_post'' (Some [(''id'', ident)]) log) =
       snd (CallTool R ''update_post'' (Some [(''id'', ident), (''status'', JStr ''publish'')]) log)
   \<and> (\<forall>res. fst (CallTool_try R ''publish_post'' (Some [(''id'', ident)]) log) = Inr res \<longleftrightarrow>
             fst (CallTool_try R ''update_post''
                    (Some [(''id'', ident), (''status'', JStr ''publish'')]) log) = Inr res)"
proof -
  have a: "snd (publishPost R ident log) =
     snd (updatePost R ident (JObj [(''status'', JStr ''publish'')]) log)"
    by (rule publish_update_same) simp_all
  have b: "\<forall>v. fst (publishPost R ident log) = Inr v \<longleftrightarrow>
           fst (updatePost R ident (JObj [(''status'', JStr ''publish'')]) log) = Inr v"
    by (intro allI, rule publish_update_same) simp_all
  have c: "\<forall>sid. ToString ident = Inr sid \<longrightarrow>
         snd (publishPost R ident log) =
           log @ [\<lparr>verb = POST, url = ''/posts/'' @ sid, query = [], config_headers = [],
                   body = JsonBody (JObj [(''status'', JStr ''publish'')])\<rparr>]"
    by (simp add: publishPost_def snd_rethrow snd_await)
  have d: "\<forall>v. fst (publishPost R ident log) = Inr v \<longrightarrow>
         (\<exists>sid response.
            ToString ident = Inr sid
          \<and> http R log \<lparr>verb = POST, url = ''/posts/'' @ sid, query = [], config_headers = [],
                         body = JsonBody (JObj [(''status'', JStr ''publish'')])\<rparr> = Inr response
          \<and> v = JObj [(''id'', lookup (data response) ''id''),
                      (''title'', lookup (lookup (data response) ''title'') ''rendered''),
                      (''link'', lookup (data response) ''link''),
                      (''status'', lookup (data response) ''status'')])"
    using publishPost_success by blast
  have a': "snd (publishPost R ident log) =
     snd (updatePost R ident (JObj [(''id'', ident), (''status'', JStr ''publish'')]) log)"
    by (rule publish_update_same) simp_all
  have b': "\<And>v. fst (publishPost R ident log) = Inr v \<longleftrightarrow>
           fst (updatePost R ident (JObj [(''id'', ident), (''status'', JStr ''publish'')]) log)
             = Inr v"
    by (rule publish_update_same) simp_all
  have e: "snd (CallTool R ''publish_post'' (Some [(''id'', ident)]) log) =
       snd (CallTool R ''update_post'' (Some [(''id'', ident), (''status'', JStr ''publish'')]) log)"
    using a'
    by (simp add: snd_CallTool CallTool_try_publish_post CallTool_try_update_post
                  snd_text_result)
  have f: "\<forall>res. fst (CallTool_try R ''publish_post'' (Some [(''id'', ident)]) log) = Inr res \<longleftrightarrow>
             fst (CallTool_try R ''update_post''
                    (Some [(''id'', ident), (''status'', JStr ''publish'')]) log) = Inr res"
    using b'
    by (simp add: CallTool_try_publish_post CallTool_try_update_post fst_text_result_Inr)
  from a b c d e f show ?thesis by blast
qed

theorem publish_is_update_with_status_witness:
  "ToString (JNum 7) = Inr ''7''
   \<and> publishPost online (JNum 7) [] =
       (Inr (JObj [(''id'', JNum 7), (''title'', JStr ''photo''),
                   (''link'', JStr ''https://example.org/?p=7''), (''status'', JStr ''draft'')]),
        [\<lparr>verb = POST, url = ''/posts/7'', query = [], config_headers = [],
          body = JsonBody (JObj [(''status'', JStr ''publish'')])\<rparr>])
   \<and> updatePost online (JNum 7) (JObj [(''status'', JStr ''publish'')]) [] =
       (Inr (JObj [(''id'', JNum 7), (''title'', JStr ''photo''),
                   (''link'', JStr ''https://example.org/?p=7''), (''status'', JStr ''draft'')]),
        [\<lparr>verb = POST, url = ''/posts/7'', query = [], config_headers = [],
          body = JsonBody (JObj [(''status'', JStr ''publish'')])\<rparr>])"
proof -
  have p: "publishPost online (JNum 7) [] =
       (Inr (JObj [(''id'', JNum 7), (''title'', JStr ''photo''),
                   (''link'', JStr ''https://example.org/?p=7''), (''status'', JStr ''draft'')]),
        [\<lparr>verb = POST, url = ''/posts/7'', query = [], config_headers = [],
          body = JsonBody (JObj [(''status'', JStr ''publish'')])\<rparr>])"
    by code_simp
  note inst = publish_is_update_with_status [of online "JNum 7" "[]"]
  from inst have same_log:
    "snd (publishPost online (JNum 7) []) =
       snd (updatePost online (JNum 7) (JObj [(''status'', JStr ''publish'')]) [])"
    by (rule conjunct1)
  from inst have same_value:
    "\<forall>v. fst (publishPost online (JNum 7) []) = Inr v \<longleftrightarrow>
         fst (updatePost online (JNum 7) (JObj [(''status'', JStr ''publish'')]) []) = Inr v"
    by (rule conjunct1 [OF conjunct2])
  from p have pv: "fst (publishPost online (JNum 7) []) =
          Inr (JObj [(''id'', JNum 7), (''title'', JStr ''photo''),
                     (''link'', JStr ''https://example.org/?p=7''), (''status'', JStr ''draft'')])"
    by simp
  from p have pl: "snd (publishPost online (JNum 7) []) =
          [\<lparr>verb = POST, url = ''/posts/7'', query = [], config_headers = [],
            body = JsonBody (JObj [(''status'', JStr ''publish'')])\<rparr>]"
    by simp
  from same_value pv
  have uv: "fst (updatePost online (JNum 7) (JObj [(''status'', JStr ''publish'')]) []) =
          Inr (JObj [(''id'', JNum 7), (''title'', JStr ''photo''),
                     (''link'', JStr ''https://example.org/?p=7''), (''status'', JStr ''draft'')])"
    by blast
  from same_log pl
  have ul: "snd (updatePost online (JNum 7) (JObj [(''status'', JStr ''publish'')]) []) =
          [\<lparr>verb = POST, url = ''/posts/7'', query = [], config_headers = [],
            body = JsonBody (JObj [(''status'', JStr ''publish'')])\<rparr>]"
    by simp
  from uv ul
  have u: "updatePost online (JNum 7) (JObj [(''status'', JStr ''publish'')]) [] =
       (Inr (JObj [(''id'', JNum 7), (''title'', JStr ''photo''),
                   (''link'', JStr ''https://example.org/?p=7''), (''status'', JStr ''draft'')]),
        [\<lparr>verb = POST, url = ''/posts/7'', query = [], config_headers = [],
          body = JsonBody (JObj [(''status'', JStr ''publish'')])\<rparr>])"
    by (simp add: prod_eq_iff)
  from ToString_7 p u show ?thesis by blast
qed

section \<open>What an upload returns\<close>

lemma uploaded_Inr:
  assumes "uploaded response = Inr v"
  shows "v = JObj [(''id'', lookup (data response) ''id''),
                   (''title'', lookup (lookup (data response) ''title'') ''rendered''),
                   (''source_url'', lookup (data response) ''source_url''),
                   (''media_type'', lookup (data response) ''media_type''),
                   (''mime_type'', lookup (data response) ''mime_type''),
                   (''link'', lookup (data response) ''link'')]"
  using assms
  by (auto simp: uploaded_def get_prop_def rendered_def split: sum.splits if_splits)

lemma uploadMedia_success_prefix:
  assumes "fst (uploadMedia R params log) = Inr v"
  shows "\<exists>mime name fileBuffer.
           uploadMedia R params log =
             rethrow ''Failed to upload media''
               (uploadMedia_requests R params log (upload_request mime name fileBuffer))"
  using assms
  by (auto simp: uploadMedia_def fst_rethrow_Inr split: sum.splits if_splits
           simp del: lookup.simps)

lemma uploadMedia_requests_success:
  assumes "fst (uploadMedia_requests R params log upload) = Inr v"
  shows "\<exists>response.
           http R log upload = Inr response
         \<and> uploaded response = Inr v
         \<and> (truthy (lookup params ''title'') \<or> truthy (lookup params ''alt_text'')
              \<or> truthy (lookup params ''caption'') \<or> truthy (lookup params ''description'') \<longrightarrow>
              (\<exists>meta. snd (uploadMedia_requests R params log upload) = log @ [upload, meta]
                    \<and> verb meta = POST
                    \<and> body meta =
                        JsonBody (JObj (spread_if ''title'' (lookup params ''title'')
                          @ spread_if ''alt_text'' (lookup params ''alt_text'')
                          @ spread_if ''caption'' (lookup params ''caption'')
                          @ spread_if ''description'' (lookup params ''description'')))))
         \<and> (\<not> (truthy (lookup params ''title'') \<or> truthy (lookup params ''alt_text'')
              \<or> truthy (lookup params ''caption'') \<or> truthy (lookup params ''description'')) \<longrightarrow>
              snd (uploadMedia_requests R params log upload) = log @ [upload])"
proof (cases "http R log upload")
  case (Inl e)
  with assms show ?thesis by (simp add: uploadMedia_requests_def)
next
  case (Inr response)
  show ?thesis
  proof (cases "truthy (lookup params ''title'') \<or> truthy (lookup params ''alt_text'')
                \<or> truthy (lookup params ''caption'') \<or> truthy (lookup params ''description'')")
    case True
    with assms Inr show ?thesis
      unfolding uploadMedia_requests_def Let_def metaUpdates_nonempty
      by (auto simp: await_def split: sum.splits simp del: lookup.simps)
  next
    case False
    with assms Inr show ?thesis
      unfolding uploadMedia_requests_def Let_def metaUpdates_nonempty
      by (auto simp del: lookup.simps)
  qed
qed

text \<open>
  Claim C9. Whenever \<open>uploadMedia\<close> succeeds, the object it returns (id, title, source_url,
  media_type, mime_type, link) is read from the response to the first request, the binary
  upload; this is so also when metadata was supplied and a second request carried it to
  the site, so the title returned is the one before the metadata was applied.
\<close>

theorem upload_result_from_first_response:
  assumes "fst (uploadMedia R params log) = Inr v"
  shows "\<exists>upload response.
           verb upload = POST \<and> url upload = ''/media''
         \<and> http R log upload = Inr response
         \<and> v = JObj [(''id'', lookup (data response) ''id''),
                     (''title'', lookup (lookup (data response) ''title'') ''rendered''),
                     (''source_url'', lookup (data response) ''source_url''),
                     (''media_type'', lookup (data response) ''media_type''),
                     (''mime_type'', lookup (data response) ''mime_type''),
                     (''link'', lookup (data response) ''link'')]
         \<and> (truthy (lookup params ''title'') \<or> truthy (lookup params ''alt_text'')
              \<or> truthy (lookup params ''caption'') \<or> truthy (lookup params ''description'') \<longrightarrow>
              (\<exists>meta. snd (uploadMedia R params log) = log @ [upload, meta]
                    \<and> verb meta = POST
                    \<and> body meta =
                        JsonBody (JObj (spread_if ''title'' (lookup params ''title'')
                          @ spread_if ''alt_text'' (lookup params ''alt_text'')
                          @ spread_if ''caption'' (lookup params ''caption'')
                          @ spread_if ''description'' (lookup params ''description'')))))
         \<and> (\<not> (truthy (lookup params ''title'') \<or> truthy (lookup params ''alt_text'')
              \<or> truthy (lookup params ''caption'') \<or> truthy (lookup params ''description'')) \<longrightarrow>
              snd (uploadMedia R params log) = log @ [upload])"
proof -
  from uploadMedia_success_prefix [OF assms] obtain mime name fileBuffer where
    eq: "uploadMedia R params log =
           rethrow ''Failed to upload media''
             (uploadMedia_requests R params log (upload_request mime name fileBuffer))"
    by blast
  from assms have "fst (uploadMedia_requests R params log (upload_request mime name fileBuffer))
                     = Inr v"
    unfolding eq fst_rethrow_Inr .
  from uploadMedia_requests_success [OF this] obtain response where
    r: "http R log (upload_request mime name fileBuffer) = Inr response"
    and u: "uploaded response = Inr v"
    and m: "truthy (lookup params ''title'') \<or> truthy (lookup params ''alt_text'')
              \<or> truthy (lookup params ''caption'') \<or> truthy (lookup params ''description'') \<longrightarrow>
              (\<exists>meta. snd (uploadMedia_requests R params log (upload_request mime name fileBuffer))
                        = log @ [upload_request mime name fileBuffer, meta]
                    \<and> verb meta = POST
                    \<and> body meta =
                        JsonBody (JObj (spread_if ''title'' (lookup params ''title'')
                          @ spread_if ''alt_text'' (lookup params ''alt_text'')
                          @ spread_if ''caption'' (lookup params ''caption'')
                          @ spread_if ''description'' (lookup params ''description''))))"
    and p: "\<not> (truthy (lookup params ''title'') \<or> truthy (lookup params ''alt_text'')
              \<or> truthy (lookup params ''caption'') \<or> truthy (lookup params ''description'')) \<longrightarrow>
              snd (uploadMedia_requests R params log (upload_request mime name fileBuffer))
                = log @ [upload_request mime name fileBuffer]"
    by blast
  have s: "snd (uploadMedia R params log) =
             snd (uploadMedia_requests R params log (upload_request mime name fileBuffer))"
    unfolding eq snd_rethrow ..
  have vu: "verb (upload_request mime name fileBuffer) = POST"
    and uu: "url (upload_request mime name fileBuffer) = ''/media''"
    by (simp_all add: upload_request_def)
  from vu uu r uploaded_Inr [OF u] m p show ?thesis
    unfolding s by blast
qed


theorem upload_result_from_first_response_witness:
  "fst (uploadMedia online (JObj titled_args) []) =
     Inr (JObj [(''id'', JNum 7), (''title'', JStr ''photo''),
                (''source_url'', JStr ''https://example.org/photo.jpg''),
                (''media_type'', JStr ''image''), (''mime_type'', JStr ''image/jpeg''),
                (''link'', JStr ''https://example.org/?p=7'')])
   \<and> truthy (lookup (JObj titled_args) ''title'')
   \<and> (\<exists>upload response meta.
         http online [] upload = Inr response
       \<and> JObj [(''id'', JNum 7), (''title'', JStr ''photo''),
               (''source_url'', JStr ''https://example.org/photo.jpg''),
               (''media_type'', JStr ''image''), (''mime_type'', JStr ''image/jpeg''),
               (''link'', JStr ''https://example.org/?p=7'')]
         = JObj [(''id'', lookup (data response) ''id''),
                 (''title'', lookup (lookup (data response) ''title'') ''rendered''),
                 (''source_url'', lookup (data response) ''source_url''),
                 (''media_type'', lookup (data response) ''media_type''),
                 (''mime_type'', lookup (data response) ''mime_type''),
                 (''link'', lookup (data response) ''link'')]
       \<and> snd (uploadMedia online (JObj titled_args) []) = [] @ [upload, meta]
       \<and> body meta = JsonBody (JObj [(''title'', JStr ''Sunset'')]))"
proof -
  have h: "fst (uploadMedia online (JObj titled_args) []) =
     Inr (JObj [(''id'', JNum 7), (''title'', JStr ''photo''),
                (''source_url'', JStr ''https://example.org/photo.jpg''),
                (''media_type'', JStr ''image''), (''mime_type'', JStr ''image/jpeg''),
                (''link'', JStr ''https://example.org/?p=7'')])"
    by code_simp
  have t: "truthy (lookup (JObj titled_args) ''title'')"
    by (simp add: titled_args_def)
  have m: "spread_if ''title'' (lookup (JObj titled_args) ''title'')
             @ spread_if ''alt_text'' (lookup (JObj titled_args) ''alt_text'')
             @ spread_if ''caption'' (lookup (JObj titled_args) ''caption'')
             @ spread_if ''description'' (lookup (JObj titled_args) ''description'')
           = [(''title'', JStr ''Sunset'')]"
    by (simp add: titled_args_def spread_if_def)
  from upload_result_from_first_response [OF h] t
  have "\<exists>upload response meta.
         http online [] upload = Inr response
       \<and> JObj [(''id'', JNum 7), (''title'', JStr ''photo''),
               (''source_url'', JStr ''https://example.org/photo.jpg''),
               (''media_type'', JStr ''image''), (''mime_type'', JStr ''image/jpeg''),
               (''link'', JStr ''https://example.org/?p=7'')]
         = JObj [(''id'', lookup (data response) ''id''),
                 (''title'', lookup (lookup (data response) ''title'') ''rendered''),
                 (''source_url'', lookup (data response) ''source_url''),
                 (''media_type'', lookup (data response) ''media_type''),
                 (''mime_type'', lookup (data response) ''mime_type''),
                 (''link'', lookup (data response) ''link'')]
       \<and> snd (uploadMedia online (JObj titled_args) []) = [] @ [upload, meta]
       \<and> body meta = JsonBody (JObj [(''title'', JStr ''Sunset'')])"
    unfolding m by blast
  with h t show ?thesis by blast
qed

section \<open>The message of a deletion\<close>

lemma deleteMedia_success:
  assumes "deleteMedia R ident force log = (Inr v, log')"
  shows "lookup v ''message'' = JStr ''Media permanently deleted''"
  using assms
  by (auto simp: deleteMedia_def Let_def rethrow_def await_def
           split: sum.splits prod.splits)

lemma deletePost_success:
  assumes "deletePost R ident force log = (Inr v, log')"
  shows "lookup v ''message'' =
           JStr (if truthy (default_to (JBool False) force) then ''Post permanently deleted''
                 else ''Post moved to trash'')"
  using assms
  by (auto simp: deletePost_def Let_def rethrow_def await_def
           split: sum.splits prod.splits)

lemma deletePage_success:
  assumes "deletePage R ident force log = (Inr v, log')"
  shows "lookup v ''message'' =
           JStr (if truthy (default_to (JBool False) force) then ''Page permanently deleted''
                 else ''Page moved to trash'')"
  using assms
  by (auto simp: deletePage_def Let_def rethrow_def await_def
           split: sum.splits prod.splits)

text \<open>
  Claim C10. Whenever \<open>deleteMedia\<close> succeeds, its message is the constant
  \<open>Media permanently deleted\<close>, whatever \<open>force\<close> was. Whenever \<open>deletePost\<close> or
  \<open>deletePage\<close> succeeds, its message is chosen by the \<open>force\<close> argument (\<open>false\<close> when
  left out) and by nothing else: the runtime, and with it the response of the site, does
  not occur in the message.
\<close>

theorem delete_messages:
  "(\<forall>v log'. deleteMedia R ident force log = (Inr v, log') \<longrightarrow>
       lookup v ''message'' = JStr ''Media permanently deleted'')
   \<and> (\<forall>v log'. deletePost R ident force log = (Inr v, log') \<longrightarrow>
       lookup v ''message'' =
         JStr (if truthy (default_to (JBool False) force) then ''Post permanently deleted''
               else ''Post moved to trash''))
   \<and> (\<forall>v log'. deletePage R ident force log = (Inr v, log') \<longrightarrow>
       lookup v ''message'' =
         JStr (if truthy (default_to (JBool False) force) then ''Page permanently deleted''
               else ''Page moved to trash''))"
  using deleteMedia_success deletePost_success deletePage_success by blast

theorem delete_messages_witness:
  "deleteMedia online (JNum 7) (JBool False) [] =
     (Inr (JObj [(''message'', JStr ''Media permanently deleted''), (''id'', JNum 7)]),
      [\<lparr>verb = DELETE, url = ''/media/7'', query = [(''force'', JBool False)],
        config_headers = [], body = NoBody\<rparr>])
   \<and> lookup (JObj [(''message'', JStr ''Media permanently deleted''), (''id'', JNum 7)]) ''message''
       = JStr ''Media permanently deleted''
   \<and> deletePost online (JNum 7) (JBool False) [] =
     (Inr (JObj [(''message'', JStr ''Post moved to trash''), (''id'', JNum 7)]),
      [\<lparr>verb = DELETE, url = ''/posts/7'', query = [(''force'', JBool False)],
        config_headers = [], body = NoBody\<rparr>])
   \<and> lookup (JObj [(''message'', JStr ''Post moved to trash''), (''id'', JNum 7)]) ''message''
       = JStr ''Post moved to trash''
   \<and> deletePage online (JNum 7) (JBool True) [] =
     (Inr (JObj [(''message'', JStr ''Page permanently deleted''), (''id'', JNum 7)]),
      [\<lparr>verb = DELETE, url = ''/pages/7'', query = [(''force'', JBool True)],
        config_headers = [], body = NoBody\<rparr>])
   \<and> lookup (JObj [(''message'', JStr ''Page permanently deleted''), (''id'', JNum 7)]) ''message''
       = JStr ''Page permanently deleted''"
proof -
  have m: "deleteMedia online (JNum 7) (JBool False) [] =
     (Inr (JObj [(''message'', JStr ''Media permanently deleted''), (''id'', JNum 7)]),
      [\<lparr>verb = DELETE, url = ''/media/7'', query = [(''force'', JBool False)],
        config_headers = [], body = NoBody\<rparr>])"
    by code_simp
  have p: "deletePost online (JNum 7) (JBool False) [] =
     (Inr (JObj [(''message'', JStr ''Post moved to trash''), (''id'', JNum 7)]),
      [\<lparr>verb = DELETE, url = ''/posts/7'', query = [(''force'', JBool False)],
        config_headers = [], body = NoBody\<rparr>])"
    by code_simp
  have g: "deletePage online (JNum 7) (JBool True) [] =
     (Inr (JObj [(''message'', JStr ''Page permanently deleted''), (''id'', JNum 7)]),
      [\<lparr>verb = DELETE, url = ''/pages/7'', query = [(''force'', JBool True)],
        config_headers = [], body = NoBody\<rparr>])"
    by code_simp
  from delete_messages [of online "JNum 7" "JBool False" "[]"] m
  have m': "lookup (JObj [(''message'', JStr ''Media permanently deleted''), (''id'', JNum 7)])
              ''message'' = JStr ''Media permanently deleted''"
    by blast
  from delete_messages [of online "JNum 7" "JBool False" "[]"] p
  have p': "lookup (JObj [(''message'', JStr ''Post moved to trash''), (''id'', JNum 7)])
              ''message'' = JStr ''Post moved to trash''"
    by (simp add: default_to_def)
  from delete_messages [of online "JNum 7" "JBool True" "[]"] g
  have g': "lookup (JObj [(''message'', JStr ''Page permanently deleted''), (''id'', JNum 7)])
              ''message'' = JStr ''Page permanently deleted''"
    by (simp add: default_to_def)
  from m m' p p' g g' show ?thesis by blast
qed

section \<open>The handler never throws\<close>

lemma rethrow_Inr_iff: "rethrow what r = (Inr v, l) \<longleftrightarrow> r = (Inr v, l)"
  by (cases r; cases "fst r") (auto simp: rethrow_def)

lemma sum_case_Inr_iff:
  "(case s of Inl e \<Rightarrow> Inl e | Inr x \<Rightarrow> f x) = Inr v \<longleftrightarrow> (\<exists>x. s = Inr x \<and> f x = Inr v)"
  by (cases s) auto

lemma outcome_case_Inr_iff:
  "(case s of Inl e \<Rightarrow> (Inl e, log) | Inr x \<Rightarrow> f x) = (Inr v, l) \<longleftrightarrow>
     (\<exists>x. s = Inr x \<and> f x = (Inr v, l))"
  by (cases s) auto

lemma await_Inr_iff:
  "await R log req k = (Inr v, l) \<longleftrightarrow>
     (\<exists>r. http R log req = Inr r \<and> k r = Inr v \<and> l = log @ [req])"
  by (auto simp: await_def split: sum.splits)

lemma getPosts_defined: "getPosts R args log = (Inr v, l) \<Longrightarrow> v \<noteq> JUndefined"
  by (auto simp: getPosts_def Let_def rethrow_Inr_iff await_Inr_iff sum_case_Inr_iff outcome_case_Inr_iff
           simp del: lookup.simps)

lemma getPost_defined:
  assumes "\<forall>l q r. http R l q = Inr r \<longrightarrow> data r \<noteq> JUndefined"
  shows "getPost R ident log = (Inr v, l) \<Longrightarrow> v \<noteq> JUndefined"
  using assms
  by (auto simp: getPost_def Let_def rethrow_Inr_iff await_Inr_iff sum_case_Inr_iff outcome_case_Inr_iff
           simp del: lookup.simps)

lemma createPost_defined: "createPost R args log = (Inr v, l) \<Longrightarrow> v \<noteq> JUndefined"
  by (auto simp: createPost_def Let_def rethrow_Inr_iff await_Inr_iff sum_case_Inr_iff outcome_case_Inr_iff split: if_splits
           simp del: lookup.simps)

lemma updatePost_defined: "updatePost R ident args log = (Inr v, l) \<Longrightarrow> v \<noteq> JUndefined"
  by (auto simp: updatePost_def Let_def rethrow_Inr_iff await_Inr_iff sum_case_Inr_iff outcome_case_Inr_iff split: if_splits
           simp del: lookup.simps)

lemma deletePost_defined: "deletePost R ident force log = (Inr v, l) \<Longrightarrow> v \<noteq> JUndefined"
  by (auto simp: deletePost_def Let_def rethrow_Inr_iff await_Inr_iff sum_case_Inr_iff outcome_case_Inr_iff split: if_splits
           simp del: lookup.simps)

lemma getCategories_defined: "getCategories R args log = (Inr v, l) \<Longrightarrow> v \<noteq> JUndefined"
  by (auto simp: getCategories_def Let_def rethrow_Inr_iff await_Inr_iff sum_case_Inr_iff outcome_case_Inr_iff
           simp del: lookup.simps)

lemma getTags_defined: "getTags R args log = (Inr v, l) \<Longrightarrow> v \<noteq> JUndefined"
  by (auto simp: getTags_def Let_def rethrow_Inr_iff await_Inr_iff sum_case_Inr_iff outcome_case_Inr_iff
           simp del: lookup.simps)

lemma publishPost_defined: "publishPost R ident log = (Inr v, l) \<Longrightarrow> v \<noteq> JUndefined"
  by (auto simp: publishPost_def Let_def rethrow_Inr_iff await_Inr_iff sum_case_Inr_iff outcome_case_Inr_iff split: if_splits
           simp del: lookup.simps)

lemma getSiteInfo_defined: "getSiteInfo R log = (Inr v, l) \<Longrightarrow> v \<noteq> JUndefined"
  by (auto simp: getSiteInfo_def Let_def rethrow_Inr_iff await_Inr_iff sum_case_Inr_iff outcome_case_Inr_iff split: if_splits
           simp del: lookup.simps)

lemma searchSite_defined: "searchSite R args log = (Inr v, l) \<Longrightarrow> v \<noteq> JUndefined"
  by (auto simp: searchSite_def Let_def rethrow_Inr_iff await_Inr_iff sum_case_Inr_iff outcome_case_Inr_iff split: if_splits
           simp del: lookup.simps)

lemma uploadMedia_defined:
  assumes "uploadMedia R args log = (Inr v, l)"
  shows "v \<noteq> JUndefined"
proof -
  from assms have ok: "fst (uploadMedia R args log) = Inr v"
    by simp
  from uploadMedia_success_prefix [OF ok] obtain mime name fileBuffer where
    eq: "uploadMedia R args log =
           rethrow ''Failed to upload media''
             (uploadMedia_requests R args log (upload_request mime name fileBuffer))"
    by blast
  from ok have "fst (uploadMedia_requests R args log (upload_request mime name fileBuffer))
                  = Inr v"
    unfolding eq fst_rethrow_Inr .
  from uploadMedia_requests_success [OF this] obtain response where
    "uploaded response = Inr v"
    by blast
  from uploaded_Inr [OF this] show ?thesis by simp
qed

lemma getMedia_defined: "getMedia R ident log = (Inr v, l) \<Longrightarrow> v \<noteq> JUndefined"
  by (auto simp: getMedia_def Let_def rethrow_Inr_iff await_Inr_iff sum_case_Inr_iff outcome_case_Inr_iff split: if_splits
           simp del: lookup.simps)

lemma listMedia_defined: "listMedia R args log = (Inr v, l) \<Longrightarrow> v \<noteq> JUndefined"
  by (auto simp: listMedia_def Let_def rethrow_Inr_iff await_Inr_iff sum_case_Inr_iff outcome_case_Inr_iff split: if_splits
           simp del: lookup.simps)

lemma deleteMedia_defined: "deleteMedia R ident force log = (Inr v, l) \<Longrightarrow> v \<noteq> JUndefined"
  by (auto simp: deleteMedia_def Let_def rethrow_Inr_iff await_Inr_iff sum_case_Inr_iff outcome_case_Inr_iff split: if_splits
           simp del: lookup.simps)


lemma text_result_Inr_iff:
  "text_result R r = (Inr res, l) \<longleftrightarrow>
     (\<exists>v. r = (Inr v, l)
        \<and> res = \<lparr>content = [TextContent (JSON_stringify R v)], isError = None\<rparr>)"
  by (cases r; cases "fst r") (auto simp: text_result_def)

lemma CallTool_try_unknown:
  assumes "name \<notin> set tool_names"
  shows "CallTool_try R name arguments log =
           (Inr \<lparr>content = [TextContent (JStr (''Unknown tool: '' @ name))],
                 isError = Some True\<rparr>, log)"
  using assms unfolding CallTool_try_def tool_names_def Let_def by simp

lemma by_id_shape:
  assumes "\<And>i v l. method i = (Inr v, l) \<Longrightarrow> P v l"
  shows "(\<exists>e. (case get_prop args ''id'' of
                  Inl e \<Rightarrow> (Inl e, log)
                | Inr i \<Rightarrow> text_result R (method i)) = (Inl e, log))
       \<or> (\<exists>r. (case get_prop args ''id'' of
                  Inl e \<Rightarrow> (Inl e, log)
                | Inr i \<Rightarrow> text_result R (method i)) = text_result R r
              \<and> (\<forall>v l. r = (Inr v, l) \<longrightarrow> P v l))"
proof (cases "get_prop args ''id''")
  case (Inl e)
  then show ?thesis by simp
next
  case (Inr i)
  have "\<forall>v l. method i = (Inr v, l) \<longrightarrow> P v l"
    using assms by blast
  then have "\<exists>r. text_result R (method i) = text_result R r
                \<and> (\<forall>v l. r = (Inr v, l) \<longrightarrow> P v l)"
    by blast
  with Inr show ?thesis by simp
qed

lemma CallTool_try_shape:
  "CallTool_try R name arguments log =
     (Inr \<lparr>content = [TextContent (JStr (''Unknown tool: '' @ name))], isError = Some True\<rparr>, log)
   \<or> (\<exists>e. CallTool_try R name arguments log = (Inl e, log))
   \<or> (\<exists>r. CallTool_try R name arguments log = text_result R r
          \<and> (\<forall>v l. r = (Inr v, l) \<longrightarrow>
                 v = JUndefined \<longrightarrow> (\<exists>i. getPost R i log = (Inr v, l))))"
proof -
  let ?args = "case arguments of None \<Rightarrow> JUndefined | Some kvs \<Rightarrow> JObj kvs"
  let ?P = "\<lambda>v l. v = JUndefined \<longrightarrow> (\<exists>i. getPost R i log = (Inr v, l))"
  show ?thesis
  proof (cases "name \<in> set tool_names")
    case False
    then show ?thesis by (simp add: CallTool_try_unknown)
  next
    case True
    then have "name = ''get_posts'' \<or> name = ''get_post'' \<or> name = ''create_post''
      \<or> name = ''update_post'' \<or> name = ''delete_post'' \<or> name = ''get_categories''
      \<or> name = ''get_tags'' \<or> name = ''publish_post'' \<or> name = ''get_site_info''
      \<or> name = ''search_site'' \<or> name = ''upload_media'' \<or> name = ''get_media''
      \<or> name = ''list_media'' \<or> name = ''delete_media''"
      by (simp add: tool_names_def)
    then show ?thesis
    proof (elim disjE)
      assume n: "name = ''get_posts''"
      have eq: "CallTool_try R name arguments log = text_result R (getPosts R ?args log)"
        by (simp add: CallTool_try_def Let_def n)
      have "\<forall>v l. getPosts R ?args log = (Inr v, l) \<longrightarrow> ?P v l"
        using getPosts_defined by blast
      with eq show ?thesis by blast
    next
      assume n: "name = ''get_post''"
      have eq: "CallTool_try R name arguments log =
                  (case get_prop ?args ''id'' of
                     Inl e \<Rightarrow> (Inl e, log)
                   | Inr i \<Rightarrow> text_result R (getPost R i log))"
        by (simp add: CallTool_try_def Let_def n)
      have "(\<exists>e. CallTool_try R name arguments log = (Inl e, log))
          \<or> (\<exists>r. CallTool_try R name arguments log = text_result R r
                 \<and> (\<forall>v l. r = (Inr v, l) \<longrightarrow> ?P v l))"
        unfolding eq by (rule by_id_shape) blast
      then show ?thesis by blast
    next
      assume n: "name = ''create_post''"
      have eq: "CallTool_try R name arguments log = text_result R (createPost R ?args log)"
        by (simp add: CallTool_try_def Let_def n)
      have "\<forall>v l. createPost R ?args log = (Inr v, l) \<longrightarrow> ?P v l"
        using createPost_defined by blast
      with eq show ?thesis by blast
    next
      assume n: "name = ''update_post''"
      have eq: "CallTool_try R name arguments log =
                  (case get_prop ?args ''id'' of
                     Inl e \<Rightarrow> (Inl e, log)
                   | Inr i \<Rightarrow> text_result R (updatePost R i ?args log))"
        by (simp add: CallTool_try_def Let_def n)
      have "(\<exists>e. CallTool_try R name arguments log = (Inl e, log))
          \<or> (\<exists>r. CallTool_try R name arguments log = text_result R r
                 \<and> (\<forall>v l. r = (Inr v, l) \<longrightarrow> ?P v l))"
        unfolding eq by (rule by_id_shape) (use updatePost_defined in blast)
      then show ?thesis by blast
    next
      assume n: "name = ''delete_post''"
      have eq: "CallTool_try R name arguments log =
                  (case get_prop ?args ''id'' of
                     Inl e \<Rightarrow> (Inl e, log)
                   | Inr i \<Rightarrow> text_result R (deletePost R i (lookup ?args ''force'') log))"
        by (simp add: CallTool_try_def Let_def n)
      have "(\<exists>e. CallTool_try R name arguments log = (Inl e, log))
          \<or> (\<exists>r. CallTool_try R name arguments log = text_result R r
                 \<and> (\<forall>v l. r = (Inr v, l) \<longrightarrow> ?P v l))"
        unfolding eq by (rule by_id_shape) (use deletePost_defined in blast)
      then show ?thesis by blast
    next
      assume n: "name = ''get_categories''"
      have eq: "CallTool_try R name arguments log = text_result R (getCategories R ?args log)"
        by (simp add: CallTool_try_def Let_def n)
      have "\<forall>v l. getCategories R ?args log = (Inr v, l) \<longrightarrow> ?P v l"
        using getCategories_defined by blast
      with eq show ?thesis by blast
    next
      assume n: "name = ''get_tags''"
      have eq: "CallTool_try R name arguments log = text_result R (getTags R ?args log)"
        by (simp add: CallTool_try_def Let_def n)
      have "\<forall>v l. getTags R ?args log = (Inr v, l) \<longrightarrow> ?P v l"
        using getTags_defined by blast
      with eq show ?thesis by blast
    next
      assume n: "name = ''publish_post''"
      have eq: "CallTool_try R name arguments log =
                  (case get_prop ?args ''id'' of
                     Inl e \<Rightarrow> (Inl e, log)
                   | Inr i \<Rightarrow> text_result R (publishPost R i log))"
        by (simp add: CallTool_try_def Let_def n)
      have "(\<exists>e. CallTool_try R name arguments log = (Inl e, log))
          \<or> (\<exists>r. CallTool_try R name arguments log = text_result R r
                 \<and> (\<forall>v l. r = (Inr v, l) \<longrightarrow> ?P v l))"
        unfolding eq by (rule by_id_shape) (use publishPost_defined in blast)
      then show ?thesis by blast
    next
      assume n: "name = ''get_site_info''"
      have eq: "CallTool_try R name arguments log = text_result R (getSiteInfo R log)"
        by (simp add: CallTool_try_def Let_def n)
      have "\<forall>v l. getSiteInfo R log = (Inr v, l) \<longrightarrow> ?P v l"
        using getSiteInfo_defined by blast
      with eq show ?thesis by blast
    next
      assume n: "name = ''search_site''"
      have eq: "CallTool_try R name arguments log = text_result R (searchSite R ?args log)"
        by (simp add: CallTool_try_def Let_def n)
      have "\<forall>v l. searchSite R ?args log = (Inr v, l) \<longrightarrow> ?P v l"
        using searchSite_defined by blast
      with eq show ?thesis by blast
    next
      assume n: "name = ''upload_media''"
      have eq: "CallTool_try R name arguments log = text_result R (uploadMedia R ?args log)"
        by (simp add: CallTool_try_def Let_def n)
      have "\<forall>v l. uploadMedia R ?args log = (Inr v, l) \<longrightarrow> ?P v l"
        using uploadMedia_defined by blast
      with eq show ?thesis by blast
    next
      assume n: "name = ''get_media''"
      have eq: "CallTool_try R name arguments log =
                  (case get_prop ?args ''id'' of
                     Inl e \<Rightarrow> (Inl e, log)
                   | Inr i \<Rightarrow> text_result R (getMedia R i log))"
        by (simp add: CallTool_try_def Let_def n)
      have "(\<exists>e. CallTool_try R name arguments log = (Inl e, log))
          \<or> (\<exists>r. CallTool_try R name arguments log = text_result R r
                 \<and> (\<forall>v l. r = (Inr v, l) \<longrightarrow> ?P v l))"
        unfolding eq by (rule by_id_shape) (use getMedia_defined in blast)
      then show ?thesis by blast
    next
      assume n: "name = ''list_media''"
      have eq: "CallTool_try R name arguments log = text_result R (listMedia R ?args log)"
        by (simp add: CallTool_try_def Let_def n)
      have "\<forall>v l. listMedia R ?args log = (Inr v, l) \<longrightarrow> ?P v l"
        using listMedia_defined by blast
      with eq show ?thesis by blast
    next
      assume n: "name = ''delete_media''"
      have eq: "CallTool_try R name arguments log =
                  (case get_prop ?args ''id'' of
                     Inl e \<Rightarrow> (Inl e, log)
                   | Inr i \<Rightarrow> text_result R (deleteMedia R i (lookup ?args ''force'') log))"
        by (simp add: CallTool_try_def Let_def n)
      have "(\<exists>e. CallTool_try R name arguments log = (Inl e, log))
          \<or> (\<exists>r. CallTool_try R name arguments log = text_result R r
                 \<and> (\<forall>v l. r = (Inr v, l) \<longrightarrow> ?P v l))"
        unfolding eq by (rule by_id_shape) (use deleteMedia_defined in blast)
      then show ?thesis by blast
    qed
  qed
qed

lemma CallTool_try_Inr:
  assumes "CallTool_try R name arguments log = (Inr res, l)"
  shows "res = \<lparr>content = [TextContent (JStr (''Unknown tool: '' @ name))], isError = Some True\<rparr>
       \<or> (\<exists>v. res = \<lparr>content = [TextContent (JSON_stringify R v)], isError = None\<rparr>
             \<and> (v = JUndefined \<longrightarrow> (\<exists>i. getPost R i log = (Inr v, l))))"
proof -
  note shape = CallTool_try_shape [of R name arguments log]
  from shape show ?thesis
  proof (elim disjE exE conjE)
    assume "CallTool_try R name arguments log =
      (Inr \<lparr>content = [TextContent (JStr (''Unknown tool: '' @ name))], isError = Some True\<rparr>,
       log)"
    with assms show ?thesis by simp
  next
    fix e
    assume "CallTool_try R name arguments log = (Inl e, log)"
    with assms show ?thesis by simp
  next
    fix r
    assume eq: "CallTool_try R name arguments log = text_result R r"
      and ok: "\<forall>v l. r = (Inr v, l) \<longrightarrow>
                 v = JUndefined \<longrightarrow> (\<exists>i. getPost R i log = (Inr v, l))"
    from assms eq have "text_result R r = (Inr res, l)"
      by simp
    then obtain v where r: "r = (Inr v, l)"
      and res: "res = \<lparr>content = [TextContent (JSON_stringify R v)], isError = None\<rparr>"
      unfolding text_result_Inr_iff by blast
    from ok r have "v = JUndefined \<longrightarrow> (\<exists>i. getPost R i log = (Inr v, l))"
      by blast
    with res show ?thesis by blast
  qed
qed

lemma CallTool_try_no_arguments:
  assumes "name \<in> set [''get_post'', ''update_post'', ''delete_post'', ''publish_post'',
                         ''get_media'', ''delete_media'']"
  shows "CallTool_try R name None log =
           (Inl (TypeError (''Cannot read properties of undefined (reading ''
                            @ [CHR 0x27] @ ''id'' @ [CHR 0x27] @ '')'')), log)"
proof -
  from assms have "name = ''get_post'' \<or> name = ''update_post'' \<or> name = ''delete_post''
      \<or> name = ''publish_post'' \<or> name = ''get_media'' \<or> name = ''delete_media''"
    by simp
  then show ?thesis
    by (elim disjE) (simp_all add: CallTool_try_def get_prop_def)
qed

text \<open>
  Claim C1. For every operation name and every argument bag the handler returns a result
  with exactly one text item and with \<open>isError\<close> absent (success) or true (failure).
  Whatever is thrown inside its \<open>try\<close> block, by reading \<open>args.id\<close> or by an adapter
  method, is caught: the result is then the failure result whose text is \<open>Error: \<close>
  followed by the message of the error, and the requests issued before the error stay in the
  log. A call without an argument bag to a tool that reads \<open>id\<close> is such a failure. The
  text is a string whenever the HTTP client never resolves with a body that is
  \<open>undefined\<close> (axios delivers a string or a parsed JSON value).
\<close>

theorem handler_always_answers:
  "\<exists>t flag log'.
      CallTool R name arguments log = (\<lparr>content = [TextContent t], isError = flag\<rparr>, log')
    \<and> (flag = None \<or> flag = Some True)
    \<and> (\<forall>e l. CallTool_try R name arguments log = (Inl e, l) \<longrightarrow>
          t = JStr (''Error: '' @ message e) \<and> flag = Some True \<and> log' = l)
    \<and> (arguments = None
        \<and> name \<in> set [''get_post'', ''update_post'', ''delete_post'', ''publish_post'',
                       ''get_media'', ''delete_media''] \<longrightarrow>
          t = JStr (''Error: '' @ ''Cannot read properties of undefined (reading ''
                    @ [CHR 0x27] @ ''id'' @ [CHR 0x27] @ '')'')
        \<and> flag = Some True \<and> log' = log)
    \<and> ((\<forall>l q r. http R l q = Inr r \<longrightarrow> data r \<noteq> JUndefined) \<longrightarrow> (\<exists>s. t = JStr s))"
proof (cases "CallTool_try R name arguments log")
  case (Pair x l)
  show ?thesis
  proof (cases x)
    case (Inl e)
    with Pair have tried: "CallTool_try R name arguments log = (Inl e, l)"
      by simp
    then have call: "CallTool R name arguments log =
        (\<lparr>content = [TextContent (JStr (''Error: '' @ message e))], isError = Some True\<rparr>, l)"
      by (simp add: CallTool_def)
    have "e = TypeError (''Cannot read properties of undefined (reading ''
                          @ [CHR 0x27] @ ''id'' @ [CHR 0x27] @ '')'') \<and> l = log"
      if "arguments = None"
        and "name \<in> set [''get_post'', ''update_post'', ''delete_post'', ''publish_post'',
                          ''get_media'', ''delete_media'']"
      using CallTool_try_no_arguments [OF that(2), of R log] tried that(1) by simp
    then have "arguments = None
        \<and> name \<in> set [''get_post'', ''update_post'', ''delete_post'', ''publish_post'',
                       ''get_media'', ''delete_media''] \<longrightarrow>
          JStr (''Error: '' @ message e) =
            JStr (''Error: '' @ ''Cannot read properties of undefined (reading ''
                  @ [CHR 0x27] @ ''id'' @ [CHR 0x27] @ '')'')
        \<and> l = log"
      by auto
    with call tried show ?thesis by simp
  next
    case (Inr res)
    with Pair have tried: "CallTool_try R name arguments log = (Inr res, l)"
      by simp
    then have call: "CallTool R name arguments log = (res, l)"
      by (simp add: CallTool_def)
    have extraction: "\<not> (arguments = None
        \<and> name \<in> set [''get_post'', ''update_post'', ''delete_post'', ''publish_post'',
                       ''get_media'', ''delete_media''])"
    proof
      assume a: "arguments = None
        \<and> name \<in> set [''get_post'', ''update_post'', ''delete_post'', ''publish_post'',
                       ''get_media'', ''delete_media'']"
      from CallTool_try_no_arguments [OF conjunct2 [OF a], of R log] a tried
      show False by simp
    qed
    from CallTool_try_Inr [OF tried] show ?thesis
    proof
      assume "res = \<lparr>content = [TextContent (JStr (''Unknown tool: '' @ name))],
                      isError = Some True\<rparr>"
      with call tried extraction show ?thesis by simp
    next
      assume "\<exists>v. res = \<lparr>content = [TextContent (JSON_stringify R v)], isError = None\<rparr>
                \<and> (v = JUndefined \<longrightarrow> (\<exists>i. getPost R i log = (Inr v, l)))"
      then obtain v where
        res: "res = \<lparr>content = [TextContent (JSON_stringify R v)], isError = None\<rparr>"
        and und: "v = JUndefined \<longrightarrow> (\<exists>i. getPost R i log = (Inr v, l))"
        by blast
      have "\<exists>s. JSON_stringify R v = JStr s"
        if "\<forall>l q r. http R l q = Inr r \<longrightarrow> data r \<noteq> JUndefined"
        using und getPost_defined [OF that] by (auto simp: JSON_stringify_def)
      with call tried res extraction show ?thesis by simp
    qed
  qed
qed

theorem handler_always_answers_witness:
  "\<not> (\<exists>l q r. http online l q = Inr r \<and> data r = JUndefined)
   \<and> CallTool_try online ''get_post'' None [] =
       (Inl (TypeError (''Cannot read properties of undefined (reading ''
                        @ [CHR 0x27] @ ''id'' @ [CHR 0x27] @ '')'')), [])
   \<and> CallTool online ''get_post'' None [] =
       (\<lparr>content = [TextContent
           (JStr (''Error: '' @ ''Cannot read properties of undefined (reading ''
                  @ [CHR 0x27] @ ''id'' @ [CHR 0x27] @ '')''))],
         isError = Some True\<rparr>, [])
   \<and> (\<exists>s log'. CallTool online ''get_post'' (Some [(''id'', JNum 7)]) [] =
         (\<lparr>content = [TextContent (JStr s)], isError = None\<rparr>, log'))"
proof -
  have contract: "\<forall>l q r. http online l q = Inr r \<longrightarrow> data r \<noteq> JUndefined"
    by (auto simp: online_def sample_body_def)
  have tried: "CallTool_try online ''get_post'' None [] =
       (Inl (TypeError (''Cannot read properties of undefined (reading ''
                        @ [CHR 0x27] @ ''id'' @ [CHR 0x27] @ '')'')), [])"
    by (simp add: CallTool_try_def get_prop_def)
  have member: "''get_post'' \<in> set [''get_post'', ''update_post'', ''delete_post'',
                                      ''publish_post'', ''get_media'', ''delete_media'']"
    by simp
  from handler_always_answers [of online "''get_post''" None "[]"] member
  have failure: "CallTool online ''get_post'' None [] =
       (\<lparr>content = [TextContent
           (JStr (''Error: '' @ ''Cannot read properties of undefined (reading ''
                  @ [CHR 0x27] @ ''id'' @ [CHR 0x27] @ '')''))],
         isError = Some True\<rparr>, [])"
    by blast
  have flag: "isError (fst (CallTool online ''get_post'' (Some [(''id'', JNum 7)]) [])) = None"
    by code_simp
  from handler_always_answers [of online "''get_post''" "Some [(''id'', JNum 7)]" "[]"] contract
  obtain t f log' where
    "CallTool online ''get_post'' (Some [(''id'', JNum 7)]) [] =
       (\<lparr>content = [TextContent t], isError = f\<rparr>, log')"
    and "\<exists>s. t = JStr s"
    by blast
  with flag have success: "\<exists>s log'. CallTool online ''get_post'' (Some [(''id'', JNum 7)]) [] =
         (\<lparr>content = [TextContent (JStr s)], isError = None\<rparr>, log')"
    by auto
  from contract tried failure success show ?thesis by blast
qed

end
